theory Spec2Isabelle
  imports Complex_Main "HOL-Library.Sublist"
begin

text \<open>
  A shallow embedding of the natural-language-to-SQL layer of \<open>app.js\<close> (class
  \<open>DataExplorer\<close>, the first of the copies the file holds): the value extractor, the
  column resolver, the intent classifier and SQL synthesizer, table creation from an
  upload, and the chart-type decision of the result post-processor.
\<close>

section \<open>Strings as the program sees them\<close>

text \<open>
  A JavaScript string is a sequence of code units. The development reads a \<^typ>\<open>string\<close>
  as the code units U+0000 to U+00FF (one \<^typ>\<open>char\<close> each), the range on which
  \<open>String.prototype.toLowerCase\<close> maps one unit to one unit: the letters A to Z and the
  letters U+00C0 to U+00DE other than the multiplication sign U+00D7 move up by 32, every
  other unit stays.
\<close>

definition toLowerChar :: "char \<Rightarrow> char" where
  "toLowerChar c =
     (let n = (of_char c :: nat)
      in if (65 \<le> n \<and> n \<le> 90) \<or> (192 \<le> n \<and> n \<le> 222 \<and> n \<noteq> 215)
         then char_of (n + 32) else c)"

definition toLowerCase :: "string \<Rightarrow> string" where
  "toLowerCase s = map toLowerChar s"

text \<open>\<open>text.includes(s)\<close>: \<open>s\<close> occurs in \<open>text\<close> as a contiguous run of units.\<close>

fun includes_str :: "string \<Rightarrow> string \<Rightarrow> bool" where
  "includes_str [] s = (s = [])"
| "includes_str (c # cs) s = (prefix s (c # cs) \<or> includes_str cs s)"

section \<open>Value extractor\<close>

definition isDigit :: "char \<Rightarrow> bool" where
  "isDigit c = (48 \<le> (of_char c :: nat) \<and> (of_char c :: nat) \<le> 57)"

text \<open>\<open>parseInt\<close> on a run of decimal digits: its value in base ten.\<close>

definition parseInt :: "string \<Rightarrow> nat" where
  "parseInt ds = foldl (\<lambda>acc c. 10 * acc + (of_char c - 48)) 0 ds"

text \<open>
  \<open>extractNumber\<close>: \<open>text.match(/\d+/)\<close> finds the leftmost digit and takes the longest run
  of digits from there; without a digit the result is \<open>null\<close> (here \<open>None\<close>).
\<close>

definition extractNumber :: "string \<Rightarrow> nat option" where
  "extractNumber text =
     (case dropWhile (\<lambda>c. \<not> isDigit c) text of
        [] \<Rightarrow> None
      | ds \<Rightarrow> Some (parseInt (takeWhile isDigit ds)))"

definition isQuote :: "char \<Rightarrow> bool" where
  "isQuote c = (of_char c = (34::nat) \<or> of_char c = (39::nat))"

text \<open>
  \<open>extractQuotedValue\<close>: \<open>text.match(/["']([^"']+)["']/)\<close>. The leftmost position that
  matches wins. At a quote character the group takes the longest run of characters that
  are not quotes; the match succeeds there when the run is not empty and a quote character
  follows it (a shorter run would be followed by a character that is not a quote, so
  backtracking finds nothing more). The result is the group, or \<open>null\<close>.
\<close>

fun extractQuotedValue :: "string \<Rightarrow> string option" where
  "extractQuotedValue [] = None"
| "extractQuotedValue (c # cs) =
     (if isQuote c \<and> takeWhile (\<lambda>x. \<not> isQuote x) cs \<noteq> []
         \<and> dropWhile (\<lambda>x. \<not> isQuote x) cs \<noteq> []
      then Some (takeWhile (\<lambda>x. \<not> isQuote x) cs)
      else extractQuotedValue cs)"

text \<open>
  A number inside a template literal. JavaScript numbers are doubles: every integer up to
  \<open>2^53 = 9007199254740992\<close> is held exactly and printed with its decimal digits. A longer digit run is
  rounded by \<open>parseInt\<close> and printed in a form this development leaves open: the
  parameter \<open>big\<close> stands for it.
\<close>

fun decimal :: "nat \<Rightarrow> string" where
  "decimal n =
     (if n < 10 then [char_of (48 + n)]
      else decimal (n div 10) @ [char_of (48 + n mod 10)])"

definition numberToString :: "(nat \<Rightarrow> string) \<Rightarrow> nat \<Rightarrow> string" where
  "numberToString big n = (if n \<le> 9007199254740992 then decimal n else big n)"

section \<open>Column resolver\<close>

text \<open>
  The methods read \<open>this.currentData.schema\<close>; it is passed as the argument \<open>columns\<close>.
  A \<open>for (const col of columns) { if (...) return col; }\<close> loop is \<^const>\<open>find\<close>.
  The result \<open>undefined\<close> of \<open>columns[0]\<close> on an empty schema is \<open>None\<close>.
\<close>

definition exactMatch :: "string \<Rightarrow> string \<Rightarrow> bool" where
  "exactMatch q col = includes_str q (toLowerCase col)"

definition synonymMatch :: "string \<Rightarrow> string \<Rightarrow> bool" where
  "synonymMatch q col =
     (let colLower = toLowerCase col
      in ((includes_str q ''name'' \<or> includes_str q ''title'') \<and>
          (includes_str colLower ''name'' \<or> includes_str colLower ''title''
             \<or> includes_str colLower ''software''))
       \<or> ((includes_str q ''category'' \<or> includes_str q ''type'') \<and>
          (includes_str colLower ''category'' \<or> includes_str colLower ''type''
             \<or> includes_str colLower ''kind''))
       \<or> ((includes_str q ''install'' \<or> includes_str q ''software'') \<and>
          (includes_str colLower ''install'' \<or> includes_str colLower ''software''
             \<or> includes_str colLower ''app'' \<or> includes_str colLower ''program''))
       \<or> (includes_str q ''status'' \<and> includes_str colLower ''status'')
       \<or> ((includes_str q ''date'' \<or> includes_str q ''time'') \<and>
          (includes_str colLower ''date'' \<or> includes_str colLower ''time''
             \<or> includes_str colLower ''created'')))"

definition categorical :: "string \<Rightarrow> bool" where
  "categorical col =
     (let colLower = toLowerCase col
      in includes_str colLower ''name'' \<or> includes_str colLower ''title''
       \<or> includes_str colLower ''software'' \<or> includes_str colLower ''app''
       \<or> includes_str colLower ''program'' \<or> includes_str colLower ''category''
       \<or> includes_str colLower ''type'' \<or> includes_str colLower ''status'')"

definition findColumnInQuestion :: "string list \<Rightarrow> string \<Rightarrow> string option" where
  "findColumnInQuestion columns question =
     (let q = toLowerCase question
      in case find (exactMatch q) columns of
           Some col \<Rightarrow> Some col
         | None \<Rightarrow>
        (case find (synonymMatch q) columns of
           Some col \<Rightarrow> Some col
         | None \<Rightarrow>
        (case find categorical columns of
           Some col \<Rightarrow> Some col
         | None \<Rightarrow>
        (case columns of [] \<Rightarrow> None | c0 # _ \<Rightarrow> Some c0))))"

definition findSecondColumnInQuestion :: "string list \<Rightarrow> string \<Rightarrow> string \<Rightarrow> string option" where
  "findSecondColumnInQuestion schema question excludeColumn =
     (let columns = filter (\<lambda>col. col \<noteq> excludeColumn) schema
      in find (\<lambda>col. includes_str (toLowerCase question) (toLowerCase col)) columns)"

section \<open>Intent classifier and SQL synthesizer\<close>

text \<open>
  \<open>generateSQLWithPatterns\<close> is a sequence of \<open>if\<close> blocks, each of which either returns
  a statement or falls through to the next. A block is a function to \<open>string option\<close>:
  \<open>Some sql\<close> where the source returns \<open>sql\<close>, \<open>None\<close> where control leaves the block.
  \<open>orElse\<close> puts one statement after another.
\<close>

definition orElse :: "'a option \<Rightarrow> 'a option \<Rightarrow> 'a option" where
  "orElse first rest = (case first of Some r \<Rightarrow> Some r | None \<Rightarrow> rest)"

text \<open>
  \<open>if (column) { ... }\<close>: a column is truthy when it is neither \<open>undefined\<close> / \<open>null\<close>
  nor the empty string.
\<close>

definition ifColumn :: "string option \<Rightarrow> (string \<Rightarrow> 'a option) \<Rightarrow> 'a option" where
  "ifColumn column body =
     (case column of None \<Rightarrow> None | Some c \<Rightarrow> if c = [] then None else body c)"

text \<open>\<open>if (value) { ... }\<close> on a number or \<open>null\<close>: zero is falsy.\<close>

definition ifNumber :: "nat option \<Rightarrow> (nat \<Rightarrow> 'a option) \<Rightarrow> 'a option" where
  "ifNumber v body =
     (case v of None \<Rightarrow> None | Some n \<Rightarrow> if n = 0 then None else body n)"

definition tableName :: string where
  "tableName = ''user_data''"

text \<open>
  The template literals of the source, one function of its slots each. The grouped-count
  literal is written out five times in the source; a number slot receives the number as
  the template prints it.
\<close>

definition sqlGroupedCount :: "string \<Rightarrow> string" where
  \<open>sqlGroupedCount column =
     ''SELECT "'' @ column @ ''", COUNT(*) as count FROM '' @ tableName
       @ '' GROUP BY "'' @ column @ ''" ORDER BY count DESC''\<close>

definition sqlLimit :: "string \<Rightarrow> string" where
  "sqlLimit num = ''SELECT * FROM '' @ tableName @ '' LIMIT '' @ num"

definition sqlAll :: string where
  "sqlAll = ''SELECT * FROM '' @ tableName"

definition sqlTotalRows :: string where
  "sqlTotalRows = ''SELECT COUNT(*) as total_rows FROM '' @ tableName"

definition sqlGroupedAvg :: "string \<Rightarrow> string \<Rightarrow> string" where
  \<open>sqlGroupedAvg groupCol column =
     ''SELECT "'' @ groupCol @ ''", AVG("'' @ column @ ''") as avg_'' @ column
       @ '' FROM '' @ tableName @ '' GROUP BY "'' @ groupCol
       @ ''" ORDER BY avg_'' @ column @ '' DESC''\<close>

definition sqlAvg :: "string \<Rightarrow> string" where
  \<open>sqlAvg column =
     ''SELECT AVG("'' @ column @ ''") as average_'' @ column @ '' FROM '' @ tableName\<close>

definition sqlGroupedSum :: "string \<Rightarrow> string \<Rightarrow> string" where
  \<open>sqlGroupedSum groupCol column =
     ''SELECT "'' @ groupCol @ ''", SUM("'' @ column @ ''") as total_'' @ column
       @ '' FROM '' @ tableName @ '' GROUP BY "'' @ groupCol
       @ ''" ORDER BY total_'' @ column @ '' DESC''\<close>

definition sqlSum :: "string \<Rightarrow> string" where
  \<open>sqlSum column =
     ''SELECT SUM("'' @ column @ ''") as total_'' @ column @ '' FROM '' @ tableName\<close>

definition sqlMax :: "string \<Rightarrow> string" where
  \<open>sqlMax column =
     ''SELECT * FROM '' @ tableName @ '' ORDER BY "'' @ column @ ''" DESC LIMIT 1''\<close>

definition sqlMin :: "string \<Rightarrow> string" where
  \<open>sqlMin column =
     ''SELECT * FROM '' @ tableName @ '' ORDER BY "'' @ column @ ''" ASC LIMIT 1''\<close>

definition sqlDistinct :: "string \<Rightarrow> string" where
  \<open>sqlDistinct column =
     ''SELECT DISTINCT "'' @ column @ ''" FROM '' @ tableName
       @ '' ORDER BY "'' @ column @ ''"''\<close>

definition sqlGreater :: "string \<Rightarrow> string \<Rightarrow> string" where
  \<open>sqlGreater column num =
     ''SELECT * FROM '' @ tableName @ '' WHERE "'' @ column @ ''" > '' @ num
       @ '' ORDER BY "'' @ column @ ''" DESC''\<close>

definition sqlLess :: "string \<Rightarrow> string \<Rightarrow> string" where
  \<open>sqlLess column num =
     ''SELECT * FROM '' @ tableName @ '' WHERE "'' @ column @ ''" < '' @ num
       @ '' ORDER BY "'' @ column @ ''" ASC''\<close>

definition sqlSort :: "string \<Rightarrow> string \<Rightarrow> string" where
  \<open>sqlSort column desc =
     ''SELECT * FROM '' @ tableName @ '' ORDER BY "'' @ column @ ''" '' @ desc\<close>

definition sqlSearch :: "string \<Rightarrow> string \<Rightarrow> string" where
  \<open>sqlSearch column val =
     ''SELECT * FROM '' @ tableName @ '' WHERE "'' @ column @ ''" LIKE ''
       @ [CHR 0x27] @ ''%'' @ val @ ''%'' @ [CHR 0x27]\<close>

definition sqlDefault :: string where
  "sqlDefault = ''SELECT * FROM '' @ tableName @ '' LIMIT 20''"

definition chartPattern :: "string list \<Rightarrow> string \<Rightarrow> string option" where
  "chartPattern columns q =
     (if includes_str q ''chart'' \<or> includes_str q ''graph'' \<or> includes_str q ''plot''
      then ifColumn (findColumnInQuestion columns q) (\<lambda>column. Some (sqlGroupedCount column))
      else None)"

definition showPattern :: "(nat \<Rightarrow> string) \<Rightarrow> string list \<Rightarrow> string \<Rightarrow> string option" where
  "showPattern big columns q =
     (if includes_str q ''show'' \<or> includes_str q ''display'' \<or> includes_str q ''view''
      then
        orElse
          (if includes_str q ''chart'' \<or> includes_str q ''graph''
                \<or> includes_str q ''bar'' \<or> includes_str q ''plot''
           then ifColumn (findColumnInQuestion columns q)
                  (\<lambda>column. Some (sqlGroupedCount column))
           else None)
       (orElse
          (if includes_str q '' by ''
           then ifColumn (findColumnInQuestion columns q)
                  (\<lambda>column. Some (sqlGroupedCount column))
           else None)
       (orElse
          (if includes_str q ''first'' \<or> includes_str q ''top''
           then Some (sqlLimit (numberToString big
                        (case extractNumber q of
                           None \<Rightarrow> 10
                         | Some n \<Rightarrow> if n = 0 then 10 else n)))
           else None)
          (if includes_str q ''all'' then Some sqlAll else None)))
      else None)"

definition countPattern :: "string list \<Rightarrow> string \<Rightarrow> string option" where
  "countPattern columns q =
     (if includes_str q ''count''
      then
        orElse
          (if includes_str q ''group'' \<or> includes_str q ''by''
           then ifColumn (findColumnInQuestion columns q)
                  (\<lambda>column. Some (sqlGroupedCount column))
           else None)
          (Some sqlTotalRows)
      else None)"

definition averagePattern :: "string list \<Rightarrow> string \<Rightarrow> string option" where
  "averagePattern columns q =
     (if includes_str q ''average'' \<or> includes_str q ''avg'' \<or> includes_str q ''mean''
      then ifColumn (findColumnInQuestion columns q) (\<lambda>column.
        orElse
          (if includes_str q ''group'' \<or> includes_str q ''by''
           then ifColumn (findSecondColumnInQuestion columns q column)
                  (\<lambda>groupCol. Some (sqlGroupedAvg groupCol column))
           else None)
          (Some (sqlAvg column)))
      else None)"

definition sumPattern :: "string list \<Rightarrow> string \<Rightarrow> string option" where
  "sumPattern columns q =
     (if includes_str q ''sum'' \<or> includes_str q ''total''
      then ifColumn (findColumnInQuestion columns q) (\<lambda>column.
        orElse
          (if includes_str q ''group'' \<or> includes_str q ''by''
           then ifColumn (findSecondColumnInQuestion columns q column)
                  (\<lambda>groupCol. Some (sqlGroupedSum groupCol column))
           else None)
          (Some (sqlSum column)))
      else None)"

definition maxPattern :: "string list \<Rightarrow> string \<Rightarrow> string option" where
  "maxPattern columns q =
     (if includes_str q ''maximum'' \<or> includes_str q ''max'' \<or> includes_str q ''highest''
      then ifColumn (findColumnInQuestion columns q) (\<lambda>column. Some (sqlMax column))
      else None)"

definition minPattern :: "string list \<Rightarrow> string \<Rightarrow> string option" where
  "minPattern columns q =
     (if includes_str q ''minimum'' \<or> includes_str q ''min'' \<or> includes_str q ''lowest''
      then ifColumn (findColumnInQuestion columns q) (\<lambda>column. Some (sqlMin column))
      else None)"

definition distinctPattern :: "string list \<Rightarrow> string \<Rightarrow> string option" where
  "distinctPattern columns q =
     (if includes_str q ''unique'' \<or> includes_str q ''distinct''
      then ifColumn (findColumnInQuestion columns q) (\<lambda>column. Some (sqlDistinct column))
      else None)"

definition greaterPattern :: "(nat \<Rightarrow> string) \<Rightarrow> string list \<Rightarrow> string \<Rightarrow> string option" where
  "greaterPattern big columns q =
     (if includes_str q ''greater than'' \<or> includes_str q ''>'' \<or> includes_str q ''more than''
      then ifColumn (findColumnInQuestion columns q) (\<lambda>column.
           ifNumber (extractNumber q) (\<lambda>value.
             Some (sqlGreater column (numberToString big value))))
      else None)"

definition lessPattern :: "(nat \<Rightarrow> string) \<Rightarrow> string list \<Rightarrow> string \<Rightarrow> string option" where
  "lessPattern big columns q =
     (if includes_str q ''less than'' \<or> includes_str q ''<'' \<or> includes_str q ''below''
      then ifColumn (findColumnInQuestion columns q) (\<lambda>column.
           ifNumber (extractNumber q) (\<lambda>value.
             Some (sqlLess column (numberToString big value))))
      else None)"

definition sortPattern :: "string list \<Rightarrow> string \<Rightarrow> string option" where
  "sortPattern columns q =
     (if includes_str q ''sort'' \<or> includes_str q ''order''
      then
        (let desc = (if includes_str q ''desc'' \<or> includes_str q ''descending''
                        \<or> includes_str q ''highest'' then ''DESC'' else ''ASC'')
         in ifColumn (findColumnInQuestion columns q) (\<lambda>column. Some (sqlSort column desc)))
      else None)"

definition searchPattern :: "string list \<Rightarrow> string \<Rightarrow> string option" where
  "searchPattern columns q =
     (if includes_str q ''find'' \<or> includes_str q ''search'' \<or> includes_str q ''where''
      then ifColumn (findColumnInQuestion columns q) (\<lambda>column.
           ifColumn (extractQuotedValue q) (\<lambda>value. Some (sqlSearch column value)))
      else None)"

definition byPattern :: "string list \<Rightarrow> string \<Rightarrow> string option" where
  "byPattern columns q =
     (if includes_str q '' by ''
      then ifColumn (findColumnInQuestion columns q) (\<lambda>column. Some (sqlGroupedCount column))
      else None)"

definition generateSQLWithPatterns :: "(nat \<Rightarrow> string) \<Rightarrow> string list \<Rightarrow> string \<Rightarrow> string" where
  "generateSQLWithPatterns big columns question =
     (let q = toLowerCase question
      in case
           orElse (chartPattern columns q)
          (orElse (showPattern big columns q)
          (orElse (countPattern columns q)
          (orElse (averagePattern columns q)
          (orElse (sumPattern columns q)
          (orElse (maxPattern columns q)
          (orElse (minPattern columns q)
          (orElse (distinctPattern columns q)
          (orElse (greaterPattern big columns q)
          (orElse (lessPattern big columns q)
          (orElse (sortPattern columns q)
          (orElse (searchPattern columns q)
                  (byPattern columns q))))))))))))
         of Some sql \<Rightarrow> sql
          | None \<Rightarrow> sqlDefault)"

section \<open>Values, rows and the upload\<close>

text \<open>
  The values a parsed row or a result row holds. A number is \<open>NaN\<close>, an infinity (with
  its sign) or a finite number. A row is an object: its own keys in their order, each with
  a value; reading a key the row does not have gives \<open>undefined\<close>.
\<close>

datatype jsnum = NaN | Infinity bool | Finite real

datatype jsval = JUndefined | JNull | JBool bool | JNumber jsnum | JString string

type_synonym row = "(string \<times> jsval) list"

definition getProp :: "row \<Rightarrow> string \<Rightarrow> jsval" where
  "getProp r key = (case map_of r key of None \<Rightarrow> JUndefined | Some v \<Rightarrow> v)"

text \<open>Truthiness, and \<open>value || null\<close>.\<close>

fun truthy :: "jsval \<Rightarrow> bool" where
  "truthy JUndefined = False"
| "truthy JNull = False"
| "truthy (JBool b) = b"
| "truthy (JNumber n) = (n \<noteq> NaN \<and> n \<noteq> Finite 0)"
| "truthy (JString s) = (s \<noteq> [])"

definition orNull :: "jsval \<Rightarrow> jsval" where
  "orNull v = (if truthy v then v else JNull)"

text \<open>\<open>xs.join(sep)\<close> on an array of strings.\<close>

fun join :: "string \<Rightarrow> string list \<Rightarrow> string" where
  "join sep [] = []"
| "join sep [x] = x"
| "join sep (x # y # ys) = x @ sep @ join sep (y # ys)"

text \<open>
  The storage engine is an external collaborator. \<open>this.SQL\<close> is the loaded engine or
  \<open>null\<close>; its operations are taken as they come: a fresh database, \<open>db.run\<close>,
  \<open>db.prepare\<close> and \<open>stmt.run\<close>, each of which returns the database after the call or
  throws.
\<close>

datatype error = Error string | TypeError

record 'db sqljs =
  newDatabase :: "'db"
  run :: "'db \<Rightarrow> string \<Rightarrow> error + 'db"
  prepare :: "'db \<Rightarrow> string \<Rightarrow> error + unit"
  stmtRun :: "'db \<Rightarrow> string \<Rightarrow> jsval list \<Rightarrow> error + 'db"

record dataset =
  cdTableName :: string
  schema :: "string list"
  rowCount :: nat

record 'db explorer =
  SQL :: "'db sqljs option"
  db :: "'db option"
  currentData :: "dataset option"

text \<open>
  The insertion loop of \<open>createTableFromData\<close>. A throw leaves the loop with the error
  and the database as it then is.
\<close>

fun insertRows :: "'db sqljs \<Rightarrow> string \<Rightarrow> string list \<Rightarrow> row list \<Rightarrow> 'db \<Rightarrow> (error \<times> 'db) + 'db" where
  "insertRows eng sql columns [] d = Inr d"
| "insertRows eng sql columns (r # rest) d =
     (case stmtRun eng d sql (map (\<lambda>col. orNull (getProp r col)) columns) of
        Inl e \<Rightarrow> Inl (e, d)
      | Inr d' \<Rightarrow> insertRows eng sql columns rest d')"

text \<open>
  \<open>createTableFromData(data, filename)\<close>: the result is the outcome (the error thrown, or
  normal completion) together with the object's fields after the call. \<open>data\<close> is
  \<open>None\<close> when it is \<open>null\<close> or \<open>undefined\<close>.
\<close>

definition createTableFromData ::
  "'db explorer \<Rightarrow> row list option \<Rightarrow> (error + unit) \<times> 'db explorer" where
  \<open>createTableFromData this data =
     (case data of
        None \<Rightarrow> (Inl (Error ''No data found in file''), this)
      | Some [] \<Rightarrow> (Inl (Error ''No data found in file''), this)
      | Some (first # others) \<Rightarrow>
         (case SQL this of
            None \<Rightarrow> (Inl TypeError, this)
          | Some eng \<Rightarrow>
             (let d0 = newDatabase eng;
                  columns = map fst first;
                  this1 = this\<lparr>db := Some d0,
                               currentData := Some \<lparr>cdTableName = tableName, schema = columns,
                                                   rowCount = length (first # others)\<rparr>\<rparr>;
                  columnDefs = join '', '' (map (\<lambda>col. ''"'' @ col @ ''" TEXT'') columns)
              in case run eng d0 (''CREATE TABLE '' @ tableName @ '' ('' @ columnDefs @ '')'') of
                   Inl e \<Rightarrow> (Inl e, this1)
                 | Inr d1 \<Rightarrow>
                    (let placeholders = join '', '' (map (\<lambda>col. ''?'') columns);
                         sql = ''INSERT INTO '' @ tableName @ '' VALUES ('' @ placeholders @ '')''
                     in case prepare eng d1 sql of
                          Inl e \<Rightarrow> (Inl e, this1\<lparr>db := Some d1\<rparr>)
                        | Inr u \<Rightarrow>
                           (case insertRows eng sql columns (first # others) d1 of
                              Inl (e, d) \<Rightarrow> (Inl e, this1\<lparr>db := Some d\<rparr>)
                            | Inr d2 \<Rightarrow> (Inr (), this1\<lparr>db := Some d2\<rparr>))))))\<close>

text \<open>
  \<open>generateSQLWithPatterns(question)\<close> as a method of the object: its first statements
  read \<open>this.currentData.schema\<close>, which throws a \<open>TypeError\<close> when no dataset is
  loaded (\<open>currentData\<close> is \<open>null\<close>); nothing after that can throw.
\<close>

definition generateSQLWithPatterns_method ::
  "(nat \<Rightarrow> string) \<Rightarrow> 'db explorer \<Rightarrow> string \<Rightarrow> error + string" where
  "generateSQLWithPatterns_method big this question =
     (case currentData this of
        None \<Rightarrow> Inl TypeError
      | Some cd \<Rightarrow> Inr (generateSQLWithPatterns big (schema cd) question))"

section \<open>Result post-processor: the chart-type decision\<close>

text \<open>
  \<open>isNaN(v)\<close> converts \<open>v\<close> to a number first. A string converts to a number other than
  \<open>NaN\<close> when, white space at both ends apart, it is empty or a numeric literal: a signed
  decimal literal (digits with an optional fraction and exponent, or \<open>Infinity\<close>) or an
  unsigned hexadecimal, octal or binary integer literal.
\<close>

definition isWhiteSpace :: "char \<Rightarrow> bool" where
  "isWhiteSpace c = (of_char c \<in> {9, 10, 11, 12, 13, 32, 160 :: nat})"

definition trim :: "string \<Rightarrow> string" where
  "trim s = rev (dropWhile isWhiteSpace (rev (dropWhile isWhiteSpace s)))"

definition isExponentPart :: "string \<Rightarrow> bool" where
  "isExponentPart s =
     (case s of
        [] \<Rightarrow> True
      | c # r \<Rightarrow>
          (c = CHR ''e'' \<or> c = CHR ''E'') \<and>
          (let ds = (case r of
                       [] \<Rightarrow> []
                     | x # r' \<Rightarrow> if x = CHR ''+'' \<or> x = CHR ''-'' then r' else r)
           in ds \<noteq> [] \<and> list_all isDigit ds))"

definition isUnsignedDecimal :: "string \<Rightarrow> bool" where
  "isUnsignedDecimal s =
     (s = ''Infinity'' \<or>
      (let ip = takeWhile isDigit s; r = dropWhile isDigit s
       in case r of
            [] \<Rightarrow> ip \<noteq> []
          | c # r' \<Rightarrow>
              if c = CHR ''.''
              then (ip \<noteq> [] \<or> takeWhile isDigit r' \<noteq> []) \<and> isExponentPart (dropWhile isDigit r')
              else ip \<noteq> [] \<and> isExponentPart r))"

definition isHexDigit :: "char \<Rightarrow> bool" where
  "isHexDigit c =
     (isDigit c \<or> (97 \<le> (of_char c :: nat) \<and> (of_char c :: nat) \<le> 102)
       \<or> (65 \<le> (of_char c :: nat) \<and> (of_char c :: nat) \<le> 70))"

definition isNonDecimal :: "string \<Rightarrow> bool" where
  "isNonDecimal s =
     (case s of
        z # x # ds \<Rightarrow>
          z = CHR ''0'' \<and> ds \<noteq> [] \<and>
          (((x = CHR ''x'' \<or> x = CHR ''X'') \<and> list_all isHexDigit ds)
           \<or> ((x = CHR ''o'' \<or> x = CHR ''O'') \<and> list_all (\<lambda>c. c \<in> set ''01234567'') ds)
           \<or> ((x = CHR ''b'' \<or> x = CHR ''B'') \<and> list_all (\<lambda>c. c \<in> set ''01'') ds))
      | _ \<Rightarrow> False)"

definition numericString :: "string \<Rightarrow> bool" where
  "numericString s =
     (let t = trim s
      in t = [] \<or> isNonDecimal t \<or>
         isUnsignedDecimal
           (case t of
              [] \<Rightarrow> []
            | c # r \<Rightarrow> if c = CHR ''+'' \<or> c = CHR ''-'' then r else t))"

fun isNaN :: "jsval \<Rightarrow> bool" where
  "isNaN JUndefined = True"
| "isNaN JNull = False"
| "isNaN (JBool b) = False"
| "isNaN (JNumber n) = (n = NaN)"
| "isNaN (JString s) = (\<not> numericString s)"

record chartConfig =
  chartType :: string
  labelColumn :: string
  valueColumn :: string

text \<open>\<open>determineChartType(results, columns)\<close>; \<open>null\<close> is \<open>None\<close>, \<open>some\<close> is \<^const>\<open>list_ex\<close>.\<close>

definition determineChartType :: "row list \<Rightarrow> string list \<Rightarrow> chartConfig option" where
  "determineChartType results columns =
     (if length results < 2 then None
      else
        (let hasStringColumn =
               list_ex (\<lambda>col. list_ex (\<lambda>r. isNaN (getProp r col) \<and> getProp r col \<noteq> JNull) results)
                 columns;
             hasNumericColumn =
               list_ex (\<lambda>col. list_ex (\<lambda>r. \<not> isNaN (getProp r col) \<and> getProp r col \<noteq> JNull) results)
                 columns
         in if hasStringColumn \<and> hasNumericColumn \<and> length columns = 2
            then Some \<lparr>chartType = ''bar'', labelColumn = columns ! 0, valueColumn = columns ! 1\<rparr>
            else None))"

section \<open>Vocabulary of the properties\<close>

text \<open>\<open>firstAt P xs i\<close>: position \<open>i\<close> is the first one of \<open>xs\<close> whose element satisfies \<open>P\<close>.\<close>

definition firstAt :: "('a \<Rightarrow> bool) \<Rightarrow> 'a list \<Rightarrow> nat \<Rightarrow> bool" where
  "firstAt P xs i = (i < length xs \<and> P (xs ! i) \<and> (\<forall>j<i. \<not> P (xs ! j)))"

text \<open>
  \<open>quotedAt t n v\<close>: at position \<open>n\<close> of \<open>t\<close> stands a quote character (of either kind),
  then the non-empty quote-free run \<open>v\<close>, then a quote character (of either kind).
  \<open>leftmostQuoted t v\<close>: \<open>v\<close> is so quoted at the leftmost position where anything is.
\<close>

definition quotedAt :: "string \<Rightarrow> nat \<Rightarrow> string \<Rightarrow> bool" where
  "quotedAt t n v =
     (\<exists>a b post. drop n t = a # v @ b # post \<and> isQuote a \<and> isQuote b
        \<and> v \<noteq> [] \<and> (\<forall>x\<in>set v. \<not> isQuote x))"

definition leftmostQuoted :: "string \<Rightarrow> string \<Rightarrow> bool" where
  "leftmostQuoted t v = (\<exists>n. quotedAt t n v \<and> (\<forall>m<n. \<forall>w. \<not> quotedAt t m w))"

text \<open>
  The quoted-string extractor as the specification words it: the first substring enclosed
  in matching quotes, the same quote character on both sides.
\<close>

fun extractQuotedValue_spec :: "string \<Rightarrow> string option" where
  "extractQuotedValue_spec [] = None"
| "extractQuotedValue_spec (c # cs) =
     (if isQuote c \<and> takeWhile (\<lambda>x. x \<noteq> c) cs \<noteq> [] \<and> dropWhile (\<lambda>x. x \<noteq> c) cs \<noteq> []
      then Some (takeWhile (\<lambda>x. x \<noteq> c) cs)
      else extractQuotedValue_spec cs)"

text \<open>
  The exclude variant of the resolver as the specification words it: steps 1 and 2 of the
  single-column resolver over the schema without the excluded column, and no column when
  neither step matches.
\<close>

definition findSecondColumn_spec :: "string list \<Rightarrow> string \<Rightarrow> string \<Rightarrow> string option" where
  "findSecondColumn_spec S Q c =
     (let S' = filter (\<lambda>col. col \<noteq> c) S; q = toLowerCase Q
      in case find (exactMatch q) S' of
           Some col \<Rightarrow> Some col
         | None \<Rightarrow> find (synonymMatch q) S')"

text \<open>
  The chart-type decision as the specification words it: one of the two columns has a
  non-numeric value and the other one has a numeric value. A value is numeric or
  non-numeric as the code classifies it; \<open>null\<close> is neither.
\<close>

definition hasNonNumeric :: "row list \<Rightarrow> string \<Rightarrow> bool" where
  "hasNonNumeric results col =
     list_ex (\<lambda>r. isNaN (getProp r col) \<and> getProp r col \<noteq> JNull) results"

definition hasNumeric :: "row list \<Rightarrow> string \<Rightarrow> bool" where
  "hasNumeric results col =
     list_ex (\<lambda>r. \<not> isNaN (getProp r col) \<and> getProp r col \<noteq> JNull) results"

definition determineChartType_spec :: "row list \<Rightarrow> string list \<Rightarrow> chartConfig option" where
  "determineChartType_spec results columns =
     (if 2 \<le> length results \<and> length columns = 2 \<and>
         ((hasNonNumeric results (columns ! 0) \<and> hasNumeric results (columns ! 1))
          \<or> (hasNonNumeric results (columns ! 1) \<and> hasNumeric results (columns ! 0)))
      then Some \<lparr>chartType = ''bar'', labelColumn = columns ! 0, valueColumn = columns ! 1\<rparr>
      else None)"

text \<open>
  The triggers of the pattern table: the keywords of a pattern together with its
  sub-condition (a second keyword, a number, a quoted value). \<open>higherTrigger q\<close>: the
  trigger of one of the patterns 1 to 12, those before the comparison patterns, is met by
  the lower-cased question \<open>q\<close>. \<open>anyTrigger q\<close>: the trigger of one of the patterns 1
  to 17 is met.
\<close>

definition showKeyword :: "string \<Rightarrow> bool" where
  "showKeyword q =
     (includes_str q ''show'' \<or> includes_str q ''display'' \<or> includes_str q ''view'')"

definition higherTrigger :: "string \<Rightarrow> bool" where
  "higherTrigger q =
     ((includes_str q ''chart'' \<or> includes_str q ''graph'' \<or> includes_str q ''plot'')
      \<or> (showKeyword q \<and>
           (includes_str q ''chart'' \<or> includes_str q ''graph''
              \<or> includes_str q ''bar'' \<or> includes_str q ''plot''))
      \<or> (showKeyword q \<and> includes_str q '' by '')
      \<or> (showKeyword q \<and> (includes_str q ''first'' \<or> includes_str q ''top''))
      \<or> (showKeyword q \<and> includes_str q ''all'')
      \<or> includes_str q ''count''
      \<or> (includes_str q ''average'' \<or> includes_str q ''avg'' \<or> includes_str q ''mean'')
      \<or> (includes_str q ''sum'' \<or> includes_str q ''total'')
      \<or> (includes_str q ''maximum'' \<or> includes_str q ''max'' \<or> includes_str q ''highest'')
      \<or> (includes_str q ''minimum'' \<or> includes_str q ''min'' \<or> includes_str q ''lowest'')
      \<or> (includes_str q ''unique'' \<or> includes_str q ''distinct''))"

definition anyTrigger :: "string \<Rightarrow> bool" where
  "anyTrigger q =
     (higherTrigger q
      \<or> ((includes_str q ''greater than'' \<or> includes_str q ''>''
             \<or> includes_str q ''more than'') \<and> extractNumber q \<noteq> None)
      \<or> ((includes_str q ''less than'' \<or> includes_str q ''<''
             \<or> includes_str q ''below'') \<and> extractNumber q \<noteq> None)
      \<or> (includes_str q ''sort'' \<or> includes_str q ''order'')
      \<or> ((includes_str q ''find'' \<or> includes_str q ''search''
             \<or> includes_str q ''where'') \<and> extractQuotedValue q \<noteq> None)
      \<or> includes_str q '' by '')"

text \<open>
  The statements of the pattern table. \<open>dq c\<close> is the name \<open>c\<close> between double quotes;
  \<open>isShape big S col sql\<close> holds when \<open>sql\<close> is one of the statements, over the table
  \<open>user_data\<close>, where \<open>col\<close> is what the column resolver returned: every column slot
  holds the resolved column \<open>c\<close> (the group slot of a grouped aggregate another column
  \<open>g\<close> of the schema \<open>S\<close>) between double quotes, and the alias of an aggregate ends
  with the bare name \<open>c\<close>.
\<close>

definition dq :: "string \<Rightarrow> string" where
  "dq c = [CHR 0x22] @ c @ [CHR 0x22]"

inductive isShape :: "(nat \<Rightarrow> string) \<Rightarrow> string list \<Rightarrow> string option \<Rightarrow> string \<Rightarrow> bool"
  for big :: "nat \<Rightarrow> string" and S :: "string list" and col :: "string option"
where
  grouped_count:
    "col = Some c \<Longrightarrow> c \<in> set S \<Longrightarrow> c \<noteq> [] \<Longrightarrow>
     isShape big S col (''SELECT '' @ dq c @ '', COUNT(*) as count FROM '' @ tableName
        @ '' GROUP BY '' @ dq c @ '' ORDER BY count DESC'')"
| limit_rows:
    "n \<noteq> 0 \<Longrightarrow>
     isShape big S col (''SELECT * FROM '' @ tableName @ '' LIMIT '' @ numberToString big n)"
| all_rows:
    "isShape big S col (''SELECT * FROM '' @ tableName)"
| total_rows:
    "isShape big S col (''SELECT COUNT(*) as total_rows FROM '' @ tableName)"
| grouped_avg:
    "col = Some c \<Longrightarrow> c \<in> set S \<Longrightarrow> c \<noteq> [] \<Longrightarrow> g \<in> set S \<Longrightarrow> g \<noteq> [] \<Longrightarrow> g \<noteq> c \<Longrightarrow>
     isShape big S col (''SELECT '' @ dq g @ '', AVG('' @ dq c @ '') as avg_'' @ c
        @ '' FROM '' @ tableName @ '' GROUP BY '' @ dq g @ '' ORDER BY avg_'' @ c @ '' DESC'')"
| plain_avg:
    "col = Some c \<Longrightarrow> c \<in> set S \<Longrightarrow> c \<noteq> [] \<Longrightarrow>
     isShape big S col (''SELECT AVG('' @ dq c @ '') as average_'' @ c @ '' FROM '' @ tableName)"
| grouped_sum:
    "col = Some c \<Longrightarrow> c \<in> set S \<Longrightarrow> c \<noteq> [] \<Longrightarrow> g \<in> set S \<Longrightarrow> g \<noteq> [] \<Longrightarrow> g \<noteq> c \<Longrightarrow>
     isShape big S col (''SELECT '' @ dq g @ '', SUM('' @ dq c @ '') as total_'' @ c
        @ '' FROM '' @ tableName @ '' GROUP BY '' @ dq g @ '' ORDER BY total_'' @ c @ '' DESC'')"
| plain_sum:
    "col = Some c \<Longrightarrow> c \<in> set S \<Longrightarrow> c \<noteq> [] \<Longrightarrow>
     isShape big S col (''SELECT SUM('' @ dq c @ '') as total_'' @ c @ '' FROM '' @ tableName)"
| maximum:
    "col = Some c \<Longrightarrow> c \<in> set S \<Longrightarrow> c \<noteq> [] \<Longrightarrow>
     isShape big S col (''SELECT * FROM '' @ tableName @ '' ORDER BY '' @ dq c @ '' DESC LIMIT 1'')"
| minimum:
    "col = Some c \<Longrightarrow> c \<in> set S \<Longrightarrow> c \<noteq> [] \<Longrightarrow>
     isShape big S col (''SELECT * FROM '' @ tableName @ '' ORDER BY '' @ dq c @ '' ASC LIMIT 1'')"
| distinct_values:
    "col = Some c \<Longrightarrow> c \<in> set S \<Longrightarrow> c \<noteq> [] \<Longrightarrow>
     isShape big S col (''SELECT DISTINCT '' @ dq c @ '' FROM '' @ tableName @ '' ORDER BY '' @ dq c)"
| greater_than:
    "col = Some c \<Longrightarrow> c \<in> set S \<Longrightarrow> c \<noteq> [] \<Longrightarrow> n \<noteq> 0 \<Longrightarrow>
     isShape big S col (''SELECT * FROM '' @ tableName @ '' WHERE '' @ dq c @ '' > ''
        @ numberToString big n @ '' ORDER BY '' @ dq c @ '' DESC'')"
| less_than:
    "col = Some c \<Longrightarrow> c \<in> set S \<Longrightarrow> c \<noteq> [] \<Longrightarrow> n \<noteq> 0 \<Longrightarrow>
     isShape big S col (''SELECT * FROM '' @ tableName @ '' WHERE '' @ dq c @ '' < ''
        @ numberToString big n @ '' ORDER BY '' @ dq c @ '' ASC'')"
| sorted_rows:
    "col = Some c \<Longrightarrow> c \<in> set S \<Longrightarrow> c \<noteq> [] \<Longrightarrow> d = ''ASC'' \<or> d = ''DESC'' \<Longrightarrow>
     isShape big S col (''SELECT * FROM '' @ tableName @ '' ORDER BY '' @ dq c @ '' '' @ d)"
| search_like:
    "col = Some c \<Longrightarrow> c \<in> set S \<Longrightarrow> c \<noteq> [] \<Longrightarrow> v \<noteq> [] \<Longrightarrow>
     isShape big S col (''SELECT * FROM '' @ tableName @ '' WHERE '' @ dq c @ '' LIKE ''
        @ [CHR 0x27] @ ''%'' @ v @ ''%'' @ [CHR 0x27])"
| default_rows:
    "isShape big S col (''SELECT * FROM '' @ tableName @ '' LIMIT 20'')"

section \<open>Evaluation and basic facts\<close>

lemmas str_eval = toLowerCase_def toLowerChar_def char_of_def bit_Suc_0_iff

lemmas resolver_eval = findColumnInQuestion_def findSecondColumnInQuestion_def exactMatch_def
  synonymMatch_def categorical_def

lemmas extract_eval = extractNumber_def isDigit_def parseInt_def isQuote_def numberToString_def

lemmas pattern_eval = chartPattern_def showPattern_def countPattern_def averagePattern_def
  sumPattern_def maxPattern_def minPattern_def distinctPattern_def greaterPattern_def
  lessPattern_def sortPattern_def searchPattern_def byPattern_def orElse_def ifColumn_def
  ifNumber_def generateSQLWithPatterns_def

lemmas template_eval = tableName_def sqlGroupedCount_def sqlLimit_def sqlAll_def sqlTotalRows_def
  sqlGroupedAvg_def sqlAvg_def sqlGroupedSum_def sqlSum_def sqlMax_def sqlMin_def
  sqlDistinct_def sqlGreater_def sqlLess_def sqlSort_def sqlSearch_def sqlDefault_def

lemmas numeric_eval = numericString_def trim_def isWhiteSpace_def isNonDecimal_def
  isUnsignedDecimal_def isDigit_def isExponentPart_def isHexDigit_def

text \<open>\<open>includes_str\<close> is the contiguous-sublist relation.\<close>

lemma includes_str_sublist: "includes_str t s \<longleftrightarrow> sublist s t"
  by (induction t) (simp_all add: sublist_Cons_right)

lemma includes_str_iff: "includes_str t s \<longleftrightarrow> (\<exists>pre post. t = pre @ s @ post)"
  by (simp add: includes_str_sublist sublist_def)

lemma includes_str_here: "includes_str (s @ post) s"
  by (simp add: includes_str_sublist)

lemma includes_str_skip: "includes_str t s \<Longrightarrow> includes_str (pre @ t) s"
  by (auto simp: includes_str_sublist intro: sublist_appendI dest: sublist_order.order_trans)

lemma toLowerChar_idem: "toLowerChar (toLowerChar c) = toLowerChar c"
  by (simp add: toLowerChar_def Let_def)

lemma toLowerCase_idem: "toLowerCase (toLowerCase s) = toLowerCase s"
  by (simp add: toLowerCase_def toLowerChar_idem)

lemma find_firstAt: "find P xs = Some x \<longleftrightarrow> (\<exists>i. firstAt P xs i \<and> x = xs ! i)"
  by (auto simp: find_Some_iff firstAt_def)

lemma find_filter: "find P (filter R xs) = find (\<lambda>x. R x \<and> P x) xs"
  by (induction xs) auto

lemma find_mem: "find P xs = Some x \<Longrightarrow> x \<in> set xs"
  by (auto simp: find_Some_iff)

section \<open>The column resolver\<close>

lemma findColumnInQuestion_lower:
  "findColumnInQuestion S (toLowerCase Q) = findColumnInQuestion S Q"
  by (simp add: findColumnInQuestion_def toLowerCase_idem)

lemma findColumnInQuestion_mem: "findColumnInQuestion S Q = Some c \<Longrightarrow> c \<in> set S"
  by (auto simp: findColumnInQuestion_def Let_def dest: find_mem split: option.splits list.splits)

lemma findColumnInQuestion_nonempty: "S \<noteq> [] \<Longrightarrow> \<exists>c. findColumnInQuestion S Q = Some c"
  by (auto simp: findColumnInQuestion_def Let_def split: option.splits list.splits)

lemma findColumnInQuestion_Nil: "findColumnInQuestion [] Q = None"
  by (simp add: findColumnInQuestion_def)

lemma findSecond_mem: "findSecondColumnInQuestion S Q x = Some c \<Longrightarrow> c \<in> set S \<and> c \<noteq> x"
  by (auto simp: findSecondColumnInQuestion_def Let_def dest: find_mem)

lemma findSecond_find:
  "findSecondColumnInQuestion S Q c =
     find (\<lambda>y. y \<noteq> c \<and> includes_str (toLowerCase Q) (toLowerCase y)) S"
  by (simp add: findSecondColumnInQuestion_def find_filter)

lemma findSecond_spec_agrees:
  assumes "findSecondColumnInQuestion S Q c = Some x"
  shows "findSecondColumn_spec S Q c = Some x"
proof -
  have "exactMatch (toLowerCase Q) = (\<lambda>y. includes_str (toLowerCase Q) (toLowerCase y))"
    by (simp add: exactMatch_def fun_eq_iff)
  then have "find (exactMatch (toLowerCase Q)) (filter (\<lambda>col. col \<noteq> c) S) = Some x"
    using assms by (simp add: findSecondColumnInQuestion_def)
  then show ?thesis
    by (simp add: findSecondColumn_spec_def)
qed

text \<open>
  C3. For a non-empty schema the resolver returns a member of the schema: the first column,
  in schema order, whose lower-cased name occurs in the lower-cased question when there is
  one; failing that the first column the synonym heuristics accept; failing that the first
  column with a categorical name; failing that the first column of the schema.
\<close>

theorem findColumnInQuestion_resolves:
  assumes "S \<noteq> []"
  shows "\<exists>c\<in>set S. findColumnInQuestion S Q = Some c \<and>
     (if \<exists>x\<in>set S. includes_str (toLowerCase Q) (toLowerCase x)
      then \<exists>i. firstAt (\<lambda>x. includes_str (toLowerCase Q) (toLowerCase x)) S i \<and> c = S ! i
      else if \<exists>x\<in>set S. synonymMatch (toLowerCase Q) x
      then \<exists>i. firstAt (synonymMatch (toLowerCase Q)) S i \<and> c = S ! i
      else if \<exists>x\<in>set S. categorical x
      then \<exists>i. firstAt categorical S i \<and> c = S ! i
      else c = S ! 0)"
proof -
  let ?q = "toLowerCase Q"
  let ?ex = "\<lambda>x. includes_str ?q (toLowerCase x)"
  have ex: "exactMatch ?q = ?ex"
    by (simp add: exactMatch_def fun_eq_iff)
  obtain c where c: "findColumnInQuestion S Q = Some c"
    using findColumnInQuestion_nonempty [OF assms] by blast
  have mem: "c \<in> set S"
    using c by (rule findColumnInQuestion_mem)
  have steps: "if \<exists>x\<in>set S. ?ex x then \<exists>i. firstAt ?ex S i \<and> c = S ! i
      else if \<exists>x\<in>set S. synonymMatch ?q x then \<exists>i. firstAt (synonymMatch ?q) S i \<and> c = S ! i
      else if \<exists>x\<in>set S. categorical x then \<exists>i. firstAt categorical S i \<and> c = S ! i
      else c = S ! 0"
  proof (cases "find ?ex S")
    case (Some a)
    then have "\<exists>x\<in>set S. ?ex x" by (auto simp: find_Some_iff)
    moreover from Some c have "c = a" by (simp add: findColumnInQuestion_def ex)
    ultimately show ?thesis using Some by (auto simp: find_firstAt)
  next
    case noex: None
    then have n1: "\<not> (\<exists>x\<in>set S. ?ex x)" by (simp add: find_None_iff)
    show ?thesis
    proof (cases "find (synonymMatch ?q) S")
      case (Some a)
      then have "\<exists>x\<in>set S. synonymMatch ?q x" by (auto simp: find_Some_iff)
      moreover from Some c noex have "c = a" by (simp add: findColumnInQuestion_def ex)
      ultimately show ?thesis using Some n1 by (auto simp: find_firstAt)
    next
      case nosyn: None
      then have n2: "\<not> (\<exists>x\<in>set S. synonymMatch ?q x)" by (simp add: find_None_iff)
      show ?thesis
      proof (cases "find categorical S")
        case (Some a)
        then have "\<exists>x\<in>set S. categorical x" by (auto simp: find_Some_iff)
        moreover from Some c noex nosyn have "c = a" by (simp add: findColumnInQuestion_def ex)
        ultimately show ?thesis using Some n1 n2 by (auto simp: find_firstAt)
      next
        case None
        then have n3: "\<not> (\<exists>x\<in>set S. categorical x)" by (simp add: find_None_iff)
        from None c noex nosyn have "(case S of [] \<Rightarrow> None | c0 # _ \<Rightarrow> Some c0) = Some c"
          by (simp add: findColumnInQuestion_def ex)
        with assms have "c = S ! 0"
          by (cases S) simp_all
        then show ?thesis using n1 n2 n3 by simp
      qed
    qed
  qed
  from c mem steps show ?thesis by blast
qed

theorem findColumnInQuestion_resolves_witness:
  "[''Software'', ''Category'', ''Installs''] \<noteq> []
   \<and> findColumnInQuestion [''Software'', ''Category'', ''Installs''] ''chart by category''
       = Some ''Category''
   \<and> firstAt (\<lambda>x. includes_str (toLowerCase ''chart by category'') (toLowerCase x))
       [''Software'', ''Category'', ''Installs''] 1"
proof -
  have ne: "[''Software'', ''Category'', ''Installs''] \<noteq> []"
    by simp
  have r: "findColumnInQuestion [''Software'', ''Category'', ''Installs''] ''chart by category''
      = Some ''Category''"
    by (simp add: resolver_eval str_eval)
  have hit: "includes_str (toLowerCase ''chart by category'') (toLowerCase ''Category'')"
    by (simp add: str_eval)
  have miss: "\<not> includes_str (toLowerCase ''chart by category'') (toLowerCase ''Software'')"
    by (simp add: str_eval)
  have fa: "firstAt (\<lambda>x. includes_str (toLowerCase ''chart by category'') (toLowerCase x))
         [''Software'', ''Category'', ''Installs''] 1"
    using hit miss by (simp add: firstAt_def)
  from findColumnInQuestion_resolves [OF ne, of "''chart by category''"] ne r fa
  show ?thesis by blast
qed

text \<open>
  C5 (as the specification has it, refuted). The schema \<open>Sales, Region_Type\<close>, the
  question \<open>average sales by type\<close> and the excluded column \<open>Sales\<close>: the synonym step
  of the specification's variant finds \<open>Region_Type\<close>, the code returns no column.
\<close>

theorem findSecondColumnInQuestion_no_synonyms_counterexample:
  "findSecondColumnInQuestion [''Sales'', ''Region_Type''] ''average sales by type'' ''Sales'' = None
   \<and> findSecondColumn_spec [''Sales'', ''Region_Type''] ''average sales by type'' ''Sales''
       = Some ''Region_Type''"
  by (simp add: findSecondColumn_spec_def resolver_eval str_eval)

text \<open>
  C5 (amended). The exclude variant applies the exact substring match only: it returns the
  first column of the schema, other than the excluded one, whose lower-cased name occurs in
  the lower-cased question, and no column when there is none; it has no synonym step and no
  fallback. Whenever it returns a column, the specification's variant returns the same one.
\<close>

theorem findSecondColumnInQuestion_exact_only:
  "(findSecondColumnInQuestion S Q c = None \<longleftrightarrow>
      (\<forall>x\<in>set S. x \<noteq> c \<longrightarrow> \<not> includes_str (toLowerCase Q) (toLowerCase x)))
   \<and> (\<forall>x. findSecondColumnInQuestion S Q c = Some x \<longleftrightarrow>
      (\<exists>i. firstAt (\<lambda>y. y \<noteq> c \<and> includes_str (toLowerCase Q) (toLowerCase y)) S i \<and> x = S ! i))
   \<and> (\<forall>x. findSecondColumnInQuestion S Q c = Some x \<longrightarrow> findSecondColumn_spec S Q c = Some x)"
proof (intro conjI allI impI)
  show "findSecondColumnInQuestion S Q c = None \<longleftrightarrow>
      (\<forall>x\<in>set S. x \<noteq> c \<longrightarrow> \<not> includes_str (toLowerCase Q) (toLowerCase x))"
    by (auto simp: findSecond_find find_None_iff)
next
  fix x
  show "findSecondColumnInQuestion S Q c = Some x \<longleftrightarrow>
      (\<exists>i. firstAt (\<lambda>y. y \<noteq> c \<and> includes_str (toLowerCase Q) (toLowerCase y)) S i \<and> x = S ! i)"
    by (simp add: findSecond_find find_firstAt)
next
  fix x
  assume "findSecondColumnInQuestion S Q c = Some x"
  then show "findSecondColumn_spec S Q c = Some x"
    by (rule findSecond_spec_agrees)
qed

theorem findSecondColumnInQuestion_exact_only_witness:
  "findSecondColumnInQuestion [''Sales'', ''Region''] ''average sales by region'' ''Sales''
     = Some ''Region''
   \<and> findSecondColumn_spec [''Sales'', ''Region''] ''average sales by region'' ''Sales''
     = Some ''Region''"
proof -
  have r: "findSecondColumnInQuestion [''Sales'', ''Region''] ''average sales by region'' ''Sales''
     = Some ''Region''"
    by (simp add: resolver_eval str_eval)
  with findSecondColumnInQuestion_exact_only
         [of "[''Sales'', ''Region'']" "''average sales by region''" "''Sales''"]
  show ?thesis by blast
qed

section \<open>The quoted-string extractor\<close>

lemma quote_run:
  "(\<exists>b post. cs = v @ b # post \<and> isQuote b \<and> (\<forall>x\<in>set v. \<not> isQuote x)) \<longleftrightarrow>
   (v = takeWhile (\<lambda>x. \<not> isQuote x) cs \<and> dropWhile (\<lambda>x. \<not> isQuote x) cs \<noteq> [])"
  (is "?L \<longleftrightarrow> ?R")
proof
  assume ?L
  then obtain b post where cs: "cs = v @ b # post" and b: "isQuote b"
    and v: "\<forall>x\<in>set v. \<not> isQuote x" by blast
  from v b have "takeWhile (\<lambda>x. \<not> isQuote x) cs = v"
    unfolding cs by (simp add: takeWhile_append2)
  moreover from v b have "dropWhile (\<lambda>x. \<not> isQuote x) cs = b # post"
    unfolding cs by (simp add: dropWhile_append2)
  ultimately show ?R by simp
next
  assume R: ?R
  let ?d = "dropWhile (\<lambda>x. \<not> isQuote x) cs"
  from R obtain b post where d: "?d = b # post" by (cases ?d) auto
  have "isQuote b"
    using hd_dropWhile [of "\<lambda>x. \<not> isQuote x" cs] R d by simp
  moreover have "cs = v @ b # post"
    using takeWhile_dropWhile_id [of "\<lambda>x. \<not> isQuote x" cs] R d by simp
  moreover have "\<forall>x\<in>set v. \<not> isQuote x"
    using R by (auto dest: set_takeWhileD)
  ultimately show ?L by blast
qed

lemma quotedAt_Nil [simp]: "\<not> quotedAt [] n v"
  by (simp add: quotedAt_def)

lemma quotedAt_Suc [simp]: "quotedAt (c # cs) (Suc n) v = quotedAt cs n v"
  by (simp add: quotedAt_def)

lemma quotedAt_0:
  "quotedAt (c # cs) 0 v \<longleftrightarrow>
     isQuote c \<and> v \<noteq> [] \<and> v = takeWhile (\<lambda>x. \<not> isQuote x) cs
       \<and> dropWhile (\<lambda>x. \<not> isQuote x) cs \<noteq> []"
proof -
  have "quotedAt (c # cs) 0 v \<longleftrightarrow>
      isQuote c \<and> v \<noteq> [] \<and> (\<exists>b post. cs = v @ b # post \<and> isQuote b \<and> (\<forall>x\<in>set v. \<not> isQuote x))"
    by (auto simp: quotedAt_def)
  then show ?thesis
    unfolding quote_run by blast
qed

lemma leftmostQuoted_Cons_hit:
  assumes "quotedAt (c # cs) 0 w"
  shows "leftmostQuoted (c # cs) v \<longleftrightarrow> v = w"
proof
  assume "leftmostQuoted (c # cs) v"
  then obtain n where n: "quotedAt (c # cs) n v" "\<forall>m<n. \<forall>w. \<not> quotedAt (c # cs) m w"
    by (auto simp: leftmostQuoted_def)
  with assms have "n = 0" by (cases n) auto
  with n assms show "v = w" by (simp add: quotedAt_0)
next
  assume "v = w"
  with assms show "leftmostQuoted (c # cs) v"
    by (auto simp: leftmostQuoted_def intro!: exI [of _ 0])
qed

lemma leftmostQuoted_Cons_miss:
  assumes "\<forall>w. \<not> quotedAt (c # cs) 0 w"
  shows "leftmostQuoted (c # cs) v \<longleftrightarrow> leftmostQuoted cs v"
proof
  assume "leftmostQuoted (c # cs) v"
  then obtain n where n: "quotedAt (c # cs) n v" "\<forall>m<n. \<forall>w. \<not> quotedAt (c # cs) m w"
    by (auto simp: leftmostQuoted_def)
  with assms obtain k where k: "n = Suc k" by (cases n) auto
  with n have "quotedAt cs k v" by simp
  moreover have "\<forall>m<k. \<forall>w. \<not> quotedAt cs m w"
  proof (intro allI impI)
    fix m w assume "m < k"
    then have "Suc m < n" using k by simp
    with n(2) have "\<not> quotedAt (c # cs) (Suc m) w" by blast
    then show "\<not> quotedAt cs m w" by simp
  qed
  ultimately show "leftmostQuoted cs v" by (auto simp: leftmostQuoted_def)
next
  assume "leftmostQuoted cs v"
  then obtain k where k: "quotedAt cs k v" "\<forall>m<k. \<forall>w. \<not> quotedAt cs m w"
    by (auto simp: leftmostQuoted_def)
  have "\<forall>m<Suc k. \<forall>w. \<not> quotedAt (c # cs) m w"
  proof (intro allI impI)
    fix m w assume m: "m < Suc k"
    show "\<not> quotedAt (c # cs) m w"
    proof (cases m)
      case 0 with assms show ?thesis by simp
    next
      case (Suc j) with m k(2) show ?thesis by simp
    qed
  qed
  with k(1) show "leftmostQuoted (c # cs) v"
    by (auto simp: leftmostQuoted_def intro!: exI [of _ "Suc k"])
qed

lemma extractQuotedValue_Some: "extractQuotedValue t = Some v \<longleftrightarrow> leftmostQuoted t v"
proof (induction t)
  case Nil
  show ?case by (simp add: leftmostQuoted_def)
next
  case (Cons c cs)
  let ?tw = "takeWhile (\<lambda>x. \<not> isQuote x) cs"
  let ?dw = "dropWhile (\<lambda>x. \<not> isQuote x) cs"
  show ?case
  proof (cases "isQuote c \<and> ?tw \<noteq> [] \<and> ?dw \<noteq> []")
    case True
    then have "quotedAt (c # cs) 0 ?tw" by (simp add: quotedAt_0)
    from leftmostQuoted_Cons_hit [OF this] True show ?thesis by auto
  next
    case False
    then have "\<forall>w. \<not> quotedAt (c # cs) 0 w" by (auto simp: quotedAt_0)
    from leftmostQuoted_Cons_miss [OF this] False Cons.IH show ?thesis by auto
  qed
qed

lemma extractQuotedValue_None: "extractQuotedValue t = None \<longleftrightarrow> (\<forall>n w. \<not> quotedAt t n w)"
proof (induction t)
  case Nil
  show ?case by simp
next
  case (Cons c cs)
  let ?tw = "takeWhile (\<lambda>x. \<not> isQuote x) cs"
  let ?dw = "dropWhile (\<lambda>x. \<not> isQuote x) cs"
  show ?case
  proof (cases "isQuote c \<and> ?tw \<noteq> [] \<and> ?dw \<noteq> []")
    case True
    then have "quotedAt (c # cs) 0 ?tw" by (simp add: quotedAt_0)
    with True show ?thesis by auto
  next
    case False
    then have miss: "\<forall>w. \<not> quotedAt (c # cs) 0 w" by (auto simp: quotedAt_0)
    have "(\<forall>n w. \<not> quotedAt (c # cs) n w) \<longleftrightarrow> (\<forall>n w. \<not> quotedAt cs n w)"
    proof
      assume a: "\<forall>n w. \<not> quotedAt (c # cs) n w"
      show "\<forall>n w. \<not> quotedAt cs n w"
      proof (intro allI)
        fix n w from a have "\<not> quotedAt (c # cs) (Suc n) w" by blast
        then show "\<not> quotedAt cs n w" by simp
      qed
    next
      assume a: "\<forall>n w. \<not> quotedAt cs n w"
      show "\<forall>n w. \<not> quotedAt (c # cs) n w"
      proof (intro allI)
        fix n w show "\<not> quotedAt (c # cs) n w"
          using a miss by (cases n) auto
      qed
    qed
    with False Cons.IH show ?thesis by auto
  qed
qed

lemma extractQuotedValue_nonempty: "extractQuotedValue t = Some v \<Longrightarrow> v \<noteq> []"
  by (auto simp: extractQuotedValue_Some leftmostQuoted_def quotedAt_def)

text \<open>
  C6 (as stated, refuted). In the text \<open>"abc'\<close> no substring stands between two equal quote
  characters (each quote character occurs once), yet the extractor returns \<open>abc\<close>.
\<close>

theorem extractQuotedValue_mixed_quotes_counterexample:
  "extractQuotedValue [CHR 0x22, CHR ''a'', CHR ''b'', CHR ''c'', CHR 0x27] = Some ''abc''
   \<and> extractQuotedValue_spec [CHR 0x22, CHR ''a'', CHR ''b'', CHR ''c'', CHR 0x27] = None
   \<and> count_list [CHR 0x22, CHR ''a'', CHR ''b'', CHR ''c'', CHR 0x27] (CHR 0x22) = 1
   \<and> count_list [CHR 0x22, CHR ''a'', CHR ''b'', CHR ''c'', CHR 0x27] (CHR 0x27) = 1"
  by (simp add: isQuote_def)

text \<open>
  C6 (amended). The extractor is total. It returns the non-empty run of characters other
  than quotes that stands between two quote characters, single or double and not
  necessarily the same one, at the leftmost position where such a run stands; it returns
  none exactly when the text has no such run.
\<close>

theorem extractQuotedValue_leftmost:
  "(extractQuotedValue t = None \<longleftrightarrow> (\<forall>n w. \<not> quotedAt t n w))
   \<and> (\<forall>v. extractQuotedValue t = Some v \<longleftrightarrow> leftmostQuoted t v)"
  by (simp add: extractQuotedValue_None extractQuotedValue_Some)

theorem extractQuotedValue_leftmost_witness:
  "extractQuotedValue (''find '' @ [CHR 0x27] @ ''abc'' @ [CHR 0x27] @ '' now'') = Some ''abc''
   \<and> leftmostQuoted (''find '' @ [CHR 0x27] @ ''abc'' @ [CHR 0x27] @ '' now'') ''abc''"
proof -
  have "extractQuotedValue (''find '' @ [CHR 0x27] @ ''abc'' @ [CHR 0x27] @ '' now'') = Some ''abc''"
    by (simp add: isQuote_def)
  with extractQuotedValue_leftmost [of "''find '' @ [CHR 0x27] @ ''abc'' @ [CHR 0x27] @ '' now''"]
  show ?thesis by blast
qed

section \<open>Table creation\<close>

text \<open>
  C8. When the parsed dataset is missing or empty, \<open>createTableFromData\<close> throws the error
  \<open>No data found in file\<close> before it touches anything: the object after the call is the
  object before it, so no database and no table is created and the schema registry
  \<open>currentData\<close> and the database handle \<open>db\<close> keep their values.
\<close>

theorem createTableFromData_empty:
  assumes "data = None \<or> data = Some []"
  shows "createTableFromData this data = (Inl (Error ''No data found in file''), this)
    \<and> db (snd (createTableFromData this data)) = db this
    \<and> currentData (snd (createTableFromData this data)) = currentData this"
  using assms by (auto simp: createTableFromData_def)

theorem createTableFromData_empty_witness:
  "(Some [] = (None :: row list option) \<or> Some [] = Some ([] :: row list))
   \<and> createTableFromData
        \<lparr>SQL = None, db = Some (0 :: nat),
         currentData = Some \<lparr>cdTableName = ''user_data'', schema = [''Price''], rowCount = 3\<rparr>\<rparr>
        (Some [])
     = (Inl (Error ''No data found in file''),
        \<lparr>SQL = None, db = Some (0 :: nat),
         currentData = Some \<lparr>cdTableName = ''user_data'', schema = [''Price''], rowCount = 3\<rparr>\<rparr>)"
proof -
  have h: "Some [] = (None :: row list option) \<or> Some [] = Some ([] :: row list)"
    by simp
  from createTableFromData_empty [OF h] h show ?thesis
    by blast
qed

section \<open>The chart-type decision\<close>

lemma determineChartType_iff:
  "determineChartType results columns =
     (if 2 \<le> length results \<and> length columns = 2
         \<and> (\<exists>col\<in>set columns. \<exists>r\<in>set results. isNaN (getProp r col) \<and> getProp r col \<noteq> JNull)
         \<and> (\<exists>col\<in>set columns. \<exists>r\<in>set results. \<not> isNaN (getProp r col) \<and> getProp r col \<noteq> JNull)
      then Some \<lparr>chartType = ''bar'', labelColumn = columns ! 0, valueColumn = columns ! 1\<rparr>
      else None)"
  by (auto simp: determineChartType_def Let_def list_ex_iff)

lemma two_columns: "length columns = 2 \<Longrightarrow> set columns = {columns ! 0, columns ! 1}"
  by (cases columns; cases "tl columns") auto

lemma determineChartType_spec_suffices:
  "determineChartType_spec results columns = Some cfg \<Longrightarrow>
   determineChartType results columns = Some cfg"
  apply (simp add: determineChartType_spec_def determineChartType_iff hasNonNumeric_def
      hasNumeric_def list_ex_iff split: if_splits)
  apply (auto simp: two_columns)
  done

text \<open>
  C9 (as stated, refuted). A result of two rows and the columns \<open>a\<close>, \<open>b\<close>, where \<open>a\<close>
  holds the texts \<open>x\<close> and \<open>1\<close> and \<open>b\<close> holds \<open>null\<close> twice: column \<open>a\<close> alone has the
  non-numeric and the numeric value, the other column has neither, and the code emits a
  bar chart.
\<close>

theorem determineChartType_same_column_counterexample:
  "determineChartType
     [[(''a'', JString ''x''), (''b'', JNull)], [(''a'', JString ''1''), (''b'', JNull)]]
     [''a'', ''b'']
     = Some \<lparr>chartType = ''bar'', labelColumn = ''a'', valueColumn = ''b''\<rparr>
   \<and> determineChartType_spec
     [[(''a'', JString ''x''), (''b'', JNull)], [(''a'', JString ''1''), (''b'', JNull)]]
     [''a'', ''b'']
     = None"
  by (simp add: determineChartType_def determineChartType_spec_def hasNonNumeric_def
      hasNumeric_def getProp_def numeric_eval)

text \<open>
  C9 (amended). \<open>determineChartType\<close> emits the bar-chart configuration (label column the
  first column, value column the second) exactly when the result has at least two rows and
  exactly two columns, some column has a value that is neither numeric nor \<open>null\<close>, and
  some column, possibly the same one, has a numeric value other than \<open>null\<close>; in every other
  case, in particular with three or more columns or fewer than two rows, it emits no chart.
  When one column has a non-numeric value and the other one a numeric value, the chart is
  emitted.
\<close>

theorem determineChartType_decides:
  "determineChartType results columns =
     (if 2 \<le> length results \<and> length columns = 2
         \<and> (\<exists>col\<in>set columns. \<exists>r\<in>set results. isNaN (getProp r col) \<and> getProp r col \<noteq> JNull)
         \<and> (\<exists>col\<in>set columns. \<exists>r\<in>set results. \<not> isNaN (getProp r col) \<and> getProp r col \<noteq> JNull)
      then Some \<lparr>chartType = ''bar'', labelColumn = columns ! 0, valueColumn = columns ! 1\<rparr>
      else None)
   \<and> (3 \<le> length columns \<longrightarrow> determineChartType results columns = None)
   \<and> (length results < 2 \<longrightarrow> determineChartType results columns = None)
   \<and> (\<forall>cfg. determineChartType_spec results columns = Some cfg
         \<longrightarrow> determineChartType results columns = Some cfg)"
proof (intro conjI allI impI)
  show "determineChartType results columns =
     (if 2 \<le> length results \<and> length columns = 2
         \<and> (\<exists>col\<in>set columns. \<exists>r\<in>set results. isNaN (getProp r col) \<and> getProp r col \<noteq> JNull)
         \<and> (\<exists>col\<in>set columns. \<exists>r\<in>set results. \<not> isNaN (getProp r col) \<and> getProp r col \<noteq> JNull)
      then Some \<lparr>chartType = ''bar'', labelColumn = columns ! 0, valueColumn = columns ! 1\<rparr>
      else None)"
    by (rule determineChartType_iff)
next
  assume "3 \<le> length columns"
  then show "determineChartType results columns = None"
    by (simp add: determineChartType_iff)
next
  assume "length results < 2"
  then show "determineChartType results columns = None"
    by (simp add: determineChartType_iff)
next
  fix cfg
  assume "determineChartType_spec results columns = Some cfg"
  then show "determineChartType results columns = Some cfg"
    by (rule determineChartType_spec_suffices)
qed

theorem determineChartType_decides_witness:
  "determineChartType
     [[(''Category'', JString ''Games''), (''count'', JNumber (Finite 3))],
      [(''Category'', JString ''Tools''), (''count'', JNumber (Finite 1))]]
     [''Category'', ''count'']
     = Some \<lparr>chartType = ''bar'', labelColumn = ''Category'', valueColumn = ''count''\<rparr>
   \<and> determineChartType
     [[(''a'', JString ''x''), (''b'', JNumber (Finite 1)), (''c'', JNull)],
      [(''a'', JString ''y''), (''b'', JNumber (Finite 2)), (''c'', JNull)]]
     [''a'', ''b'', ''c'']
     = None"
proof -
  have "determineChartType_spec
     [[(''Category'', JString ''Games''), (''count'', JNumber (Finite 3))],
      [(''Category'', JString ''Tools''), (''count'', JNumber (Finite 1))]]
     [''Category'', ''count'']
     = Some \<lparr>chartType = ''bar'', labelColumn = ''Category'', valueColumn = ''count''\<rparr>"
    by (simp add: determineChartType_spec_def hasNonNumeric_def hasNumeric_def getProp_def
        numeric_eval)
  moreover have "3 \<le> length [''a'', ''b'', ''c'']"
    by simp
  ultimately show ?thesis
    using determineChartType_decides
            [of "[[(''Category'', JString ''Games''), (''count'', JNumber (Finite 3))],
                  [(''Category'', JString ''Tools''), (''count'', JNumber (Finite 1))]]"
                "[''Category'', ''count'']"]
          determineChartType_decides
            [of "[[(''a'', JString ''x''), (''b'', JNumber (Finite 1)), (''c'', JNull)],
                  [(''a'', JString ''y''), (''b'', JNumber (Finite 2)), (''c'', JNull)]]"
                "[''a'', ''b'', ''c'']"]
    by blast
qed

section \<open>The synthesizer\<close>

lemma ifColumn_Some:
  "ifColumn col body = Some r \<longleftrightarrow> (\<exists>c. col = Some c \<and> c \<noteq> [] \<and> body c = Some r)"
  by (auto simp: ifColumn_def split: option.splits)

lemma ifColumn_None [simp]: "ifColumn None body = None"
  by (simp add: ifColumn_def)

lemma ifColumn_hit: "c \<noteq> [] \<Longrightarrow> ifColumn (Some c) body = body c"
  by (simp add: ifColumn_def)

lemma ifNumber_Some:
  "ifNumber v body = Some r \<longleftrightarrow> (\<exists>n. v = Some n \<and> n \<noteq> 0 \<and> body n = Some r)"
  by (auto simp: ifNumber_def split: option.splits)

lemma orElse_SomeD: "orElse a b = Some r \<Longrightarrow> a = Some r \<or> b = Some r"
  by (auto simp: orElse_def split: option.splits)

lemma orElse_None [simp]: "orElse None b = b"
  by (simp add: orElse_def)

lemma orElse_Some [simp]: "orElse (Some r) b = Some r"
  by (simp add: orElse_def)

lemma if_SomeD: "(if b then x else None) = Some r \<Longrightarrow> x = Some r"
  by (simp split: if_splits)

lemma ifColumn_const_None [simp]: "ifColumn col (\<lambda>c. None) = None"
  by (simp add: ifColumn_def split: option.splits)

lemma ifNumber_None [simp]: "ifNumber None body = None"
  by (simp add: ifNumber_def)

text \<open>Every template, filled from the resolved column, is a statement of the pattern table.\<close>

lemma shape_groupedCount:
  "findColumnInQuestion S q = Some c \<Longrightarrow> c \<noteq> [] \<Longrightarrow>
   isShape big S (Some c) (sqlGroupedCount c)"
  using isShape.grouped_count [of "Some c" c S big] findColumnInQuestion_mem [of S q c]
  by (simp add: sqlGroupedCount_def dq_def)

lemma shape_limit: "n \<noteq> 0 \<Longrightarrow> isShape big S col (sqlLimit (numberToString big n))"
  using isShape.limit_rows [of n big S col] by (simp add: sqlLimit_def)

lemma shape_all: "isShape big S col sqlAll"
  using isShape.all_rows [of big S col] by (simp add: sqlAll_def)

lemma shape_totalRows: "isShape big S col sqlTotalRows"
  using isShape.total_rows [of big S col] by (simp add: sqlTotalRows_def)

lemma shape_groupedAvg:
  "findColumnInQuestion S q = Some c \<Longrightarrow> c \<noteq> [] \<Longrightarrow> g \<in> set S \<Longrightarrow> g \<noteq> [] \<Longrightarrow> g \<noteq> c \<Longrightarrow>
   isShape big S (Some c) (sqlGroupedAvg g c)"
  using isShape.grouped_avg [of "Some c" c S g big] findColumnInQuestion_mem [of S q c]
  by (simp add: sqlGroupedAvg_def dq_def)

lemma shape_avg:
  "findColumnInQuestion S q = Some c \<Longrightarrow> c \<noteq> [] \<Longrightarrow> isShape big S (Some c) (sqlAvg c)"
  using isShape.plain_avg [of "Some c" c S big] findColumnInQuestion_mem [of S q c]
  by (simp add: sqlAvg_def dq_def)

lemma shape_groupedSum:
  "findColumnInQuestion S q = Some c \<Longrightarrow> c \<noteq> [] \<Longrightarrow> g \<in> set S \<Longrightarrow> g \<noteq> [] \<Longrightarrow> g \<noteq> c \<Longrightarrow>
   isShape big S (Some c) (sqlGroupedSum g c)"
  using isShape.grouped_sum [of "Some c" c S g big] findColumnInQuestion_mem [of S q c]
  by (simp add: sqlGroupedSum_def dq_def)

lemma shape_sum:
  "findColumnInQuestion S q = Some c \<Longrightarrow> c \<noteq> [] \<Longrightarrow> isShape big S (Some c) (sqlSum c)"
  using isShape.plain_sum [of "Some c" c S big] findColumnInQuestion_mem [of S q c]
  by (simp add: sqlSum_def dq_def)

lemma shape_max:
  "findColumnInQuestion S q = Some c \<Longrightarrow> c \<noteq> [] \<Longrightarrow> isShape big S (Some c) (sqlMax c)"
  using isShape.maximum [of "Some c" c S big] findColumnInQuestion_mem [of S q c]
  by (simp add: sqlMax_def dq_def)

lemma shape_min:
  "findColumnInQuestion S q = Some c \<Longrightarrow> c \<noteq> [] \<Longrightarrow> isShape big S (Some c) (sqlMin c)"
  using isShape.minimum [of "Some c" c S big] findColumnInQuestion_mem [of S q c]
  by (simp add: sqlMin_def dq_def)

lemma shape_distinct:
  "findColumnInQuestion S q = Some c \<Longrightarrow> c \<noteq> [] \<Longrightarrow> isShape big S (Some c) (sqlDistinct c)"
  using isShape.distinct_values [of "Some c" c S big] findColumnInQuestion_mem [of S q c]
  by (simp add: sqlDistinct_def dq_def)

lemma shape_greater:
  "findColumnInQuestion S q = Some c \<Longrightarrow> c \<noteq> [] \<Longrightarrow> n \<noteq> 0 \<Longrightarrow>
   isShape big S (Some c) (sqlGreater c (numberToString big n))"
  using isShape.greater_than [of "Some c" c S n big] findColumnInQuestion_mem [of S q c]
  by (simp add: sqlGreater_def dq_def)

lemma shape_less:
  "findColumnInQuestion S q = Some c \<Longrightarrow> c \<noteq> [] \<Longrightarrow> n \<noteq> 0 \<Longrightarrow>
   isShape big S (Some c) (sqlLess c (numberToString big n))"
  using isShape.less_than [of "Some c" c S n big] findColumnInQuestion_mem [of S q c]
  by (simp add: sqlLess_def dq_def)

lemma shape_sort:
  "findColumnInQuestion S q = Some c \<Longrightarrow> c \<noteq> [] \<Longrightarrow> d = ''ASC'' \<or> d = ''DESC'' \<Longrightarrow>
   isShape big S (Some c) (sqlSort c d)"
  using isShape.sorted_rows [of "Some c" c S d big] findColumnInQuestion_mem [of S q c]
  by (simp add: sqlSort_def dq_def)

lemma shape_search:
  "findColumnInQuestion S q = Some c \<Longrightarrow> c \<noteq> [] \<Longrightarrow> v \<noteq> [] \<Longrightarrow>
   isShape big S (Some c) (sqlSearch c v)"
  using isShape.search_like [of "Some c" c S v big] findColumnInQuestion_mem [of S q c]
  by (simp add: sqlSearch_def dq_def)

lemma shape_default: "isShape big S col sqlDefault"
  using isShape.default_rows [of big S col] by (simp add: sqlDefault_def)

lemmas shape_intros = shape_groupedCount shape_limit shape_all shape_totalRows shape_groupedAvg
  shape_avg shape_groupedSum shape_sum shape_max shape_min shape_distinct shape_greater
  shape_less shape_sort shape_search shape_default

text \<open>
  Whatever a block returns is a statement of the pattern table on the column the resolver
  returns for the lower-cased question.
\<close>

lemma chartPattern_shape:
  "chartPattern S q = Some r \<Longrightarrow> isShape big S (findColumnInQuestion S q) r"
  unfolding chartPattern_def
  by (auto simp: ifColumn_Some dest!: if_SomeD)
     (auto intro: shape_intros)

lemma byPattern_shape:
  "byPattern S q = Some r \<Longrightarrow> isShape big S (findColumnInQuestion S q) r"
  unfolding byPattern_def
  by (auto simp: ifColumn_Some dest!: if_SomeD)
     (auto intro: shape_intros)

lemma countPattern_shape:
  "countPattern S q = Some r \<Longrightarrow> isShape big S (findColumnInQuestion S q) r"
  unfolding countPattern_def
  by (auto simp: ifColumn_Some dest!: if_SomeD orElse_SomeD)
     (auto intro: shape_intros)

lemma showPattern_shape:
  "showPattern big S q = Some r \<Longrightarrow> isShape big S (findColumnInQuestion S q) r"
  unfolding showPattern_def
  by (auto simp: ifColumn_Some dest!: if_SomeD orElse_SomeD split: option.splits)
     (auto intro: shape_intros)

lemma averagePattern_shape:
  "averagePattern S q = Some r \<Longrightarrow> isShape big S (findColumnInQuestion S q) r"
  unfolding averagePattern_def
  by (auto simp: ifColumn_Some dest!: if_SomeD orElse_SomeD findSecond_mem)
     (auto intro: shape_intros)

lemma sumPattern_shape:
  "sumPattern S q = Some r \<Longrightarrow> isShape big S (findColumnInQuestion S q) r"
  unfolding sumPattern_def
  by (auto simp: ifColumn_Some dest!: if_SomeD orElse_SomeD findSecond_mem)
     (auto intro: shape_intros)

lemma maxPattern_shape:
  "maxPattern S q = Some r \<Longrightarrow> isShape big S (findColumnInQuestion S q) r"
  unfolding maxPattern_def
  by (auto simp: ifColumn_Some dest!: if_SomeD)
     (auto intro: shape_intros)

lemma minPattern_shape:
  "minPattern S q = Some r \<Longrightarrow> isShape big S (findColumnInQuestion S q) r"
  unfolding minPattern_def
  by (auto simp: ifColumn_Some dest!: if_SomeD)
     (auto intro: shape_intros)

lemma distinctPattern_shape:
  "distinctPattern S q = Some r \<Longrightarrow> isShape big S (findColumnInQuestion S q) r"
  unfolding distinctPattern_def
  by (auto simp: ifColumn_Some dest!: if_SomeD)
     (auto intro: shape_intros)

lemma greaterPattern_shape:
  "greaterPattern big S q = Some r \<Longrightarrow> isShape big S (findColumnInQuestion S q) r"
  unfolding greaterPattern_def
  by (auto simp: ifColumn_Some ifNumber_Some dest!: if_SomeD)
     (auto intro: shape_intros)

lemma lessPattern_shape:
  "lessPattern big S q = Some r \<Longrightarrow> isShape big S (findColumnInQuestion S q) r"
  unfolding lessPattern_def
  by (auto simp: ifColumn_Some ifNumber_Some dest!: if_SomeD)
     (auto intro: shape_intros)

lemma sortPattern_shape:
  "sortPattern S q = Some r \<Longrightarrow> isShape big S (findColumnInQuestion S q) r"
  unfolding sortPattern_def Let_def
  by (auto simp: ifColumn_Some dest!: if_SomeD)
     (auto intro: shape_intros)

lemma searchPattern_shape:
  "searchPattern S q = Some r \<Longrightarrow> isShape big S (findColumnInQuestion S q) r"
  unfolding searchPattern_def
  by (auto simp: ifColumn_Some dest!: if_SomeD extractQuotedValue_nonempty)
     (auto intro: shape_intros)

lemma synth_isShape:
  "isShape big S (findColumnInQuestion S Q) (generateSQLWithPatterns big S Q)"
proof (cases "orElse (chartPattern S (toLowerCase Q))
          (orElse (showPattern big S (toLowerCase Q))
          (orElse (countPattern S (toLowerCase Q))
          (orElse (averagePattern S (toLowerCase Q))
          (orElse (sumPattern S (toLowerCase Q))
          (orElse (maxPattern S (toLowerCase Q))
          (orElse (minPattern S (toLowerCase Q))
          (orElse (distinctPattern S (toLowerCase Q))
          (orElse (greaterPattern big S (toLowerCase Q))
          (orElse (lessPattern big S (toLowerCase Q))
          (orElse (sortPattern S (toLowerCase Q))
          (orElse (searchPattern S (toLowerCase Q))
                  (byPattern S (toLowerCase Q)))))))))))))")
  case None
  then show ?thesis
    by (simp add: generateSQLWithPatterns_def Let_def shape_default)
next
  case (Some r)
  then have "isShape big S (findColumnInQuestion S (toLowerCase Q)) r"
    by (blast dest: orElse_SomeD chartPattern_shape showPattern_shape countPattern_shape
        averagePattern_shape sumPattern_shape maxPattern_shape minPattern_shape
        distinctPattern_shape greaterPattern_shape lessPattern_shape sortPattern_shape
        searchPattern_shape byPattern_shape)
  with Some show ?thesis
    by (simp add: generateSQLWithPatterns_def Let_def findColumnInQuestion_lower)
qed

lemma includes_str_self: "includes_str s s"
  by (simp add: includes_str_sublist)

lemma isShape_starts: "isShape big S col r \<Longrightarrow> r \<noteq> [] \<and> prefix ''SELECT'' r"
  by (induction rule: isShape.induct) simp_all

lemma isShape_table: "isShape big S col r \<Longrightarrow> includes_str r tableName"
  by (induction rule: isShape.induct)
     ((rule includes_str_here | rule includes_str_self | rule includes_str_skip)+)+

lemma isShape_select:
  assumes "isShape big S col r"
  shows "r \<noteq> [] \<and> prefix ''SELECT'' r \<and> includes_str r tableName"
  using isShape_starts [OF assms] isShape_table [OF assms] by simp

text \<open>A block whose trigger is not met returns nothing.\<close>

lemma showPattern_no_trigger:
  assumes "\<not> higherTrigger q"
  shows "showPattern big S q = None"
proof (cases "showKeyword q")
  case True
  with assms have "\<not> (includes_str q ''chart'' \<or> includes_str q ''graph''
        \<or> includes_str q ''bar'' \<or> includes_str q ''plot'')"
    and "\<not> includes_str q '' by ''"
    and "\<not> (includes_str q ''first'' \<or> includes_str q ''top'')"
    and "\<not> includes_str q ''all''"
    by (simp_all add: higherTrigger_def)
  then show ?thesis
    by (simp add: showPattern_def)
next
  case False
  then show ?thesis
    by (simp add: showPattern_def showKeyword_def)
qed

lemma no_higher_trigger:
  assumes "\<not> higherTrigger q"
  shows "chartPattern S q = None" "showPattern big S q = None" "countPattern S q = None"
    "averagePattern S q = None" "sumPattern S q = None" "maxPattern S q = None"
    "minPattern S q = None" "distinctPattern S q = None"
  using assms showPattern_no_trigger [OF assms]
  by (simp_all add: higherTrigger_def chartPattern_def countPattern_def
      averagePattern_def sumPattern_def maxPattern_def minPattern_def distinctPattern_def)

lemma no_lower_trigger:
  assumes "\<not> anyTrigger q"
  shows "greaterPattern big S q = None" "lessPattern big S q = None" "sortPattern S q = None"
    "searchPattern S q = None" "byPattern S q = None"
proof -
  from assms have
    g: "\<not> (includes_str q ''greater than'' \<or> includes_str q ''>''
          \<or> includes_str q ''more than'') \<or> extractNumber q = None"
    and l: "\<not> (includes_str q ''less than'' \<or> includes_str q ''<''
          \<or> includes_str q ''below'') \<or> extractNumber q = None"
    and s: "\<not> (includes_str q ''sort'' \<or> includes_str q ''order'')"
    and f: "\<not> (includes_str q ''find'' \<or> includes_str q ''search''
          \<or> includes_str q ''where'') \<or> extractQuotedValue q = None"
    and b: "\<not> includes_str q '' by ''"
    by (simp_all add: anyTrigger_def)
  from g show "greaterPattern big S q = None"
    by (cases "extractNumber q = None") (simp_all add: greaterPattern_def)
  from l show "lessPattern big S q = None"
    by (cases "extractNumber q = None") (simp_all add: lessPattern_def)
  from s show "sortPattern S q = None"
    by (simp add: sortPattern_def)
  from f show "searchPattern S q = None"
    by (cases "extractQuotedValue q = None") (simp_all add: searchPattern_def)
  from b show "byPattern S q = None"
    by (simp add: byPattern_def)
qed

lemma no_trigger_default:
  assumes "\<not> anyTrigger (toLowerCase Q)"
  shows "generateSQLWithPatterns big S Q = sqlDefault"
proof -
  from assms have "\<not> higherTrigger (toLowerCase Q)"
    by (simp add: anyTrigger_def)
  from no_higher_trigger [OF this] no_lower_trigger [OF assms]
  show ?thesis
    by (simp add: generateSQLWithPatterns_def)
qed

text \<open>
  C1. For every question and every schema the synthesizer returns a string that is not
  empty, starts with \<open>SELECT\<close> and contains the table name \<open>user_data\<close>; when the
  lower-cased question meets the trigger of no pattern (the keywords of a pattern together
  with its sub-condition: a second keyword, a number, a quoted value) the result is the
  default statement. The synthesizer is a total function: every operation of the source
  (\<open>toLowerCase\<close>, \<open>includes\<close>, \<open>match\<close>, \<open>parseInt\<close>, \<open>filter\<close>, the loops over the schema,
  \<open>columns[0]\<close>) is defined on every string and every list of strings, so no branch
  throws; called as a method on an object that holds a schema, it returns normally.
\<close>

theorem generateSQLWithPatterns_total:
  "generateSQLWithPatterns big S Q \<noteq> []
   \<and> prefix ''SELECT'' (generateSQLWithPatterns big S Q)
   \<and> includes_str (generateSQLWithPatterns big S Q) ''user_data''
   \<and> (\<not> anyTrigger (toLowerCase Q)
        \<longrightarrow> generateSQLWithPatterns big S Q = ''SELECT * FROM user_data LIMIT 20'')
   \<and> (\<forall>this cd. currentData this = Some cd \<and> schema cd = S
        \<longrightarrow> generateSQLWithPatterns_method big this Q = Inr (generateSQLWithPatterns big S Q))"
proof -
  have "\<not> anyTrigger (toLowerCase Q)
        \<longrightarrow> generateSQLWithPatterns big S Q = ''SELECT * FROM user_data LIMIT 20''"
    by (auto dest!: no_trigger_default [of Q big S] simp: sqlDefault_def tableName_def)
  moreover have "tableName = ''user_data''"
    by (simp add: tableName_def)
  moreover have "\<forall>this cd. currentData this = Some cd \<and> schema cd = S
        \<longrightarrow> generateSQLWithPatterns_method big this Q = Inr (generateSQLWithPatterns big S Q)"
    by (simp add: generateSQLWithPatterns_method_def)
  ultimately show ?thesis
    using isShape_select [OF synth_isShape, of big S Q] by simp
qed

theorem generateSQLWithPatterns_total_witness:
  "\<not> anyTrigger (toLowerCase ''Show me'')
   \<and> generateSQLWithPatterns decimal [''Price''] ''Show me''
       = ''SELECT * FROM user_data LIMIT 20''
   \<and> prefix ''SELECT'' (generateSQLWithPatterns decimal [''Price''] ''Show me'')
   \<and> includes_str (generateSQLWithPatterns decimal [''Price''] ''Show me'') ''user_data''"
proof -
  have h: "\<not> anyTrigger (toLowerCase ''Show me'')"
    by (simp add: anyTrigger_def higherTrigger_def showKeyword_def extract_eval str_eval)
  from h generateSQLWithPatterns_total [of decimal "[''Price'']" "''Show me''", where ?'a = unit]
  show ?thesis by blast
qed

lemma resolved_nonempty_name:
  assumes "findColumnInQuestion S Q = Some c" and "[] \<notin> set S"
  shows "c \<noteq> []"
  using findColumnInQuestion_mem [OF assms(1)] assms(2) by auto

lemma chartPattern_fires:
  assumes "includes_str q ''chart'' \<or> includes_str q ''graph'' \<or> includes_str q ''plot''"
    and "findColumnInQuestion S q = Some c" and "c \<noteq> []"
  shows "chartPattern S q = Some (sqlGroupedCount c)"
  using assms by (simp add: chartPattern_def ifColumn_hit)

lemma greaterPattern_fires:
  assumes "includes_str q ''greater than'' \<or> includes_str q ''>'' \<or> includes_str q ''more than''"
    and "findColumnInQuestion S q = Some c" and "c \<noteq> []"
    and "extractNumber q = Some n" and "n \<noteq> 0"
  shows "greaterPattern big S q = Some (sqlGreater c (numberToString big n))"
  using assms by (simp add: greaterPattern_def ifColumn_hit ifNumber_def)

text \<open>
  C2 (as stated, refuted). The schema whose only column has the empty name is not empty;
  on the question \<open>chart the average\<close> the resolver returns the empty name, which
  \<open>if (column)\<close> takes for no column, and the synthesizer falls through to the default
  statement.
\<close>

theorem chart_priority_empty_name_counterexample:
  "findColumnInQuestion [''''] (toLowerCase ''chart the average'') = Some ''''
   \<and> generateSQLWithPatterns decimal [''''] ''chart the average''
       = ''SELECT * FROM user_data LIMIT 20''"
  by (simp add: pattern_eval resolver_eval extract_eval template_eval str_eval)

text \<open>
  C2 (amended). For a question whose lower-cased text contains a chart keyword and an
  average keyword and a non-empty schema, the resolver returns a column of the schema, and
  when the name of that column is not empty (as it is whenever no column of the schema has
  an empty name) the synthesizer returns the grouped-count statement on that column, which
  is the chart pattern's, not the average pattern's. The keyword \<open>as\<close> is in lower case.
\<close>

theorem chart_takes_priority:
  assumes "includes_str (toLowerCase Q) ''chart'' \<or> includes_str (toLowerCase Q) ''graph''
             \<or> includes_str (toLowerCase Q) ''plot''"
    and "includes_str (toLowerCase Q) ''average'' \<or> includes_str (toLowerCase Q) ''avg''
             \<or> includes_str (toLowerCase Q) ''mean''"
    and "S \<noteq> []"
  shows \<open>\<exists>c\<in>set S. findColumnInQuestion S Q = Some c
     \<and> ([] \<notin> set S \<longrightarrow> c \<noteq> [])
     \<and> (c \<noteq> [] \<longrightarrow>
          generateSQLWithPatterns big S Q =
            ''SELECT "'' @ c @ ''", COUNT(*) as count FROM user_data GROUP BY "'' @ c
              @ ''" ORDER BY count DESC'')\<close>
proof -
  obtain c where c: "findColumnInQuestion S Q = Some c"
    using findColumnInQuestion_nonempty [OF assms(3)] by blast
  then have q: "findColumnInQuestion S (toLowerCase Q) = Some c"
    by (simp add: findColumnInQuestion_lower)
  have mem: "c \<in> set S"
    using c by (rule findColumnInQuestion_mem)
  have \<open>generateSQLWithPatterns big S Q =
      ''SELECT "'' @ c @ ''", COUNT(*) as count FROM user_data GROUP BY "'' @ c
        @ ''" ORDER BY count DESC''\<close> if "c \<noteq> []"
    using chartPattern_fires [OF assms(1) q that]
    by (simp add: generateSQLWithPatterns_def sqlGroupedCount_def tableName_def)
  with c mem show ?thesis
    by (auto dest: resolved_nonempty_name)
qed

theorem chart_takes_priority_witness:
  \<open>(includes_str (toLowerCase ''Chart the average sales'') ''chart''
      \<or> includes_str (toLowerCase ''Chart the average sales'') ''graph''
      \<or> includes_str (toLowerCase ''Chart the average sales'') ''plot'')
   \<and> (includes_str (toLowerCase ''Chart the average sales'') ''average''
      \<or> includes_str (toLowerCase ''Chart the average sales'') ''avg''
      \<or> includes_str (toLowerCase ''Chart the average sales'') ''mean'')
   \<and> [''Sales'', ''Region''] \<noteq> []
   \<and> generateSQLWithPatterns decimal [''Sales'', ''Region''] ''Chart the average sales''
       = ''SELECT "Sales", COUNT(*) as count FROM user_data GROUP BY "Sales" ORDER BY count DESC''\<close>
proof -
  have h1: "includes_str (toLowerCase ''Chart the average sales'') ''chart''
      \<or> includes_str (toLowerCase ''Chart the average sales'') ''graph''
      \<or> includes_str (toLowerCase ''Chart the average sales'') ''plot''"
    by (simp add: str_eval)
  have h2: "includes_str (toLowerCase ''Chart the average sales'') ''average''
      \<or> includes_str (toLowerCase ''Chart the average sales'') ''avg''
      \<or> includes_str (toLowerCase ''Chart the average sales'') ''mean''"
    by (simp add: str_eval)
  have h3: "[''Sales'', ''Region''] \<noteq> []"
    by simp
  have r: "findColumnInQuestion [''Sales'', ''Region''] ''Chart the average sales'' = Some ''Sales''"
    by (simp add: resolver_eval str_eval)
  from chart_takes_priority [OF h1 h2 h3, of decimal] r h1 h2 h3
  show ?thesis by auto
qed



text \<open>
  C7 (as stated, refuted). The question \<open>rows > 100\<close> has the trigger \<open>>\<close>, the number
  100 and no keyword of an earlier pattern, and the schema whose only column has the empty
  name is not empty; the resolver returns the empty name, which \<open>column && value\<close> takes
  for no column, and the result is the default statement. The second input has the
  schema \<open>Price\<close> and the number 0, which \<open>column && value\<close> takes for no number.
\<close>

theorem greater_than_skipped_counterexample:
  "includes_str (toLowerCase ''rows > 100'') ''>''
   \<and> extractNumber (toLowerCase ''rows > 100'') = Some 100
   \<and> findColumnInQuestion [''''] (toLowerCase ''rows > 100'') = Some ''''
   \<and> generateSQLWithPatterns decimal [''''] ''rows > 100'' = ''SELECT * FROM user_data LIMIT 20''
   \<and> includes_str (toLowerCase ''find records where Price > 0'') ''>''
   \<and> extractNumber (toLowerCase ''find records where Price > 0'') = Some 0
   \<and> findColumnInQuestion [''Price''] (toLowerCase ''find records where Price > 0'') = Some ''Price''
   \<and> generateSQLWithPatterns decimal [''Price''] ''find records where Price > 0''
       = ''SELECT * FROM user_data LIMIT 20''"
  by (simp add: pattern_eval resolver_eval extract_eval template_eval str_eval)

text \<open>
  C7 (amended). For a question whose lower-cased text contains \<open>greater than\<close>, \<open>>\<close> or
  \<open>more than\<close> and a digit run of value \<open>n\<close> other than zero, and meets the trigger of no
  higher-priority pattern (the keywords of one of the patterns 1 to 12 together with its
  sub-condition), and a non-empty schema, the resolver returns a column of the schema, and
  when the name of that column is not empty (as it is whenever no column of the schema has
  an empty name) the synthesizer returns the comparison statement on that column and \<open>n\<close>.
  What the synthesizer does with the number zero is left open here.
\<close>

theorem greater_than_fires:
  assumes "includes_str (toLowerCase Q) ''greater than'' \<or> includes_str (toLowerCase Q) ''>''
             \<or> includes_str (toLowerCase Q) ''more than''"
    and "extractNumber (toLowerCase Q) = Some n" and "n \<noteq> 0"
    and "\<not> higherTrigger (toLowerCase Q)"
    and "S \<noteq> []"
  shows \<open>\<exists>c\<in>set S. findColumnInQuestion S Q = Some c
     \<and> ([] \<notin> set S \<longrightarrow> c \<noteq> [])
     \<and> (c \<noteq> [] \<longrightarrow>
          generateSQLWithPatterns big S Q =
            ''SELECT * FROM user_data WHERE "'' @ c @ ''" > '' @ numberToString big n
              @ '' ORDER BY "'' @ c @ ''" DESC'')\<close>
proof -
  obtain c where c: "findColumnInQuestion S Q = Some c"
    using findColumnInQuestion_nonempty [OF assms(5)] by blast
  then have q: "findColumnInQuestion S (toLowerCase Q) = Some c"
    by (simp add: findColumnInQuestion_lower)
  have mem: "c \<in> set S"
    using c by (rule findColumnInQuestion_mem)
  have \<open>generateSQLWithPatterns big S Q =
      ''SELECT * FROM user_data WHERE "'' @ c @ ''" > '' @ numberToString big n
        @ '' ORDER BY "'' @ c @ ''" DESC''\<close> if "c \<noteq> []"
    using greaterPattern_fires [OF assms(1) q that assms(2,3)] no_higher_trigger [OF assms(4)]
    by (simp add: generateSQLWithPatterns_def sqlGreater_def tableName_def)
  with c mem show ?thesis
    by (auto dest: resolved_nonempty_name)
qed

theorem greater_than_fires_witness:
  \<open>(includes_str (toLowerCase ''find records where Price > 100'') ''greater than''
      \<or> includes_str (toLowerCase ''find records where Price > 100'') ''>''
      \<or> includes_str (toLowerCase ''find records where Price > 100'') ''more than'')
   \<and> extractNumber (toLowerCase ''find records where Price > 100'') = Some 100
   \<and> (100 :: nat) \<noteq> 0
   \<and> \<not> higherTrigger (toLowerCase ''find records where Price > 100'')
   \<and> [''Price''] \<noteq> []
   \<and> generateSQLWithPatterns decimal [''Price''] ''find records where Price > 100''
       = ''SELECT * FROM user_data WHERE "Price" > 100 ORDER BY "Price" DESC''
   \<and> includes_str (toLowerCase ''show rows where price > 100'') ''show''
   \<and> \<not> higherTrigger (toLowerCase ''show rows where price > 100'')
   \<and> generateSQLWithPatterns decimal [''Price''] ''show rows where price > 100''
       = ''SELECT * FROM user_data WHERE "Price" > 100 ORDER BY "Price" DESC''\<close>
proof -
  let ?Q = "''find records where Price > 100''"
  let ?R = "''show rows where price > 100''"
  have h1: "includes_str (toLowerCase ?Q) ''greater than'' \<or> includes_str (toLowerCase ?Q) ''>''
      \<or> includes_str (toLowerCase ?Q) ''more than''"
    by (simp add: str_eval)
  have h2: "extractNumber (toLowerCase ?Q) = Some 100"
    by (simp add: extract_eval str_eval)
  have h3: "(100 :: nat) \<noteq> 0"
    by simp
  have h4: "\<not> higherTrigger (toLowerCase ?Q)"
    by (simp add: higherTrigger_def showKeyword_def str_eval)
  have h5: "[''Price''] \<noteq> []"
    by simp
  have r1: "includes_str (toLowerCase ?R) ''greater than'' \<or> includes_str (toLowerCase ?R) ''>''
      \<or> includes_str (toLowerCase ?R) ''more than''"
    by (simp add: str_eval)
  have r2: "extractNumber (toLowerCase ?R) = Some 100"
    by (simp add: extract_eval str_eval)
  have r4: "\<not> higherTrigger (toLowerCase ?R)"
    by (simp add: higherTrigger_def showKeyword_def str_eval)
  have r6: "includes_str (toLowerCase ?R) ''show''"
    by (simp add: str_eval)
  have n: "numberToString decimal 100 = ''100''"
    by (simp add: numberToString_def str_eval)
  from greater_than_fires [OF h1 h2 h3 h4 h5, of decimal]
    greater_than_fires [OF r1 r2 h3 r4 h5, of decimal] n h1 h2 h3 h4 h5 r4 r6
  show ?thesis by auto
qed

lemma showPattern_Nil_eq:
  "showPattern big [] q =
     (if includes_str q ''show'' \<or> includes_str q ''display'' \<or> includes_str q ''view''
      then if includes_str q ''first'' \<or> includes_str q ''top''
           then Some (sqlLimit (numberToString big
                  (case extractNumber q of None \<Rightarrow> 10 | Some n \<Rightarrow> if n = 0 then 10 else n)))
           else if includes_str q ''all'' then Some sqlAll else None
      else None)"
  by (simp add: showPattern_def findColumnInQuestion_Nil)

lemma showPattern_Nil:
  "showPattern big [] q = None
   \<or> showPattern big [] q = Some sqlAll
   \<or> (\<exists>n. n \<noteq> 0 \<and> showPattern big [] q = Some (sqlLimit (numberToString big n)))"
proof -
  define n where "n = (case extractNumber q of None \<Rightarrow> 10 | Some n \<Rightarrow> if n = 0 then 10 else n)"
  have n: "n \<noteq> 0"
    by (simp add: n_def split: option.splits)
  have "showPattern big [] q = None \<or> showPattern big [] q = Some sqlAll
      \<or> showPattern big [] q = Some (sqlLimit (numberToString big n))"
    unfolding showPattern_Nil_eq n_def by simp
  with n show ?thesis by blast
qed

lemma countPattern_Nil:
  "countPattern [] q = None \<or> countPattern [] q = Some sqlTotalRows"
  by (simp add: countPattern_def findColumnInQuestion_Nil)

lemma column_patterns_Nil:
  "chartPattern [] q = None" "averagePattern [] q = None" "sumPattern [] q = None"
  "maxPattern [] q = None" "minPattern [] q = None" "distinctPattern [] q = None"
  "greaterPattern big [] q = None" "lessPattern big [] q = None" "sortPattern [] q = None"
  "searchPattern [] q = None" "byPattern [] q = None"
  by (simp_all add: chartPattern_def averagePattern_def sumPattern_def maxPattern_def
      minPattern_def distinctPattern_def greaterPattern_def lessPattern_def sortPattern_def
      searchPattern_def byPattern_def findColumnInQuestion_Nil)

text \<open>
  C10. On the empty schema the resolver returns no column for any question, every pattern
  that needs a column returns nothing, and the synthesizer, a total function, returns one
  of the statements without a column: the row count, the first rows up to a limit, all
  rows, or the default statement. The keyword \<open>as\<close> is in lower case.
\<close>

theorem generateSQLWithPatterns_empty_schema:
  "findColumnInQuestion [] Q = None
   \<and> chartPattern [] (toLowerCase Q) = None
   \<and> averagePattern [] (toLowerCase Q) = None
   \<and> sumPattern [] (toLowerCase Q) = None
   \<and> maxPattern [] (toLowerCase Q) = None
   \<and> minPattern [] (toLowerCase Q) = None
   \<and> distinctPattern [] (toLowerCase Q) = None
   \<and> greaterPattern big [] (toLowerCase Q) = None
   \<and> lessPattern big [] (toLowerCase Q) = None
   \<and> sortPattern [] (toLowerCase Q) = None
   \<and> searchPattern [] (toLowerCase Q) = None
   \<and> byPattern [] (toLowerCase Q) = None
   \<and> (generateSQLWithPatterns big [] Q = ''SELECT COUNT(*) as total_rows FROM user_data''
      \<or> (\<exists>n. n \<noteq> 0 \<and> generateSQLWithPatterns big [] Q
                = ''SELECT * FROM user_data LIMIT '' @ numberToString big n)
      \<or> generateSQLWithPatterns big [] Q = ''SELECT * FROM user_data''
      \<or> generateSQLWithPatterns big [] Q = ''SELECT * FROM user_data LIMIT 20'')"
proof -
  let ?q = "toLowerCase Q"
  have g: "generateSQLWithPatterns big [] Q =
      (case orElse (showPattern big [] ?q) (countPattern [] ?q) of
         Some sql \<Rightarrow> sql | None \<Rightarrow> sqlDefault)"
    by (simp add: generateSQLWithPatterns_def column_patterns_Nil orElse_def
        split: option.splits)
  have "generateSQLWithPatterns big [] Q = sqlTotalRows
      \<or> (\<exists>n. n \<noteq> 0 \<and> generateSQLWithPatterns big [] Q = sqlLimit (numberToString big n))
      \<or> generateSQLWithPatterns big [] Q = sqlAll
      \<or> generateSQLWithPatterns big [] Q = sqlDefault"
    using showPattern_Nil [of big ?q] countPattern_Nil [of ?q]
    unfolding g by (auto simp: orElse_def)
  then show ?thesis
    by (simp add: column_patterns_Nil findColumnInQuestion_Nil sqlTotalRows_def sqlLimit_def
        sqlAll_def sqlDefault_def tableName_def)
qed

theorem generateSQLWithPatterns_empty_schema_witness:
  "findColumnInQuestion [] ''show top 25 rows'' = None
   \<and> generateSQLWithPatterns decimal [] ''show top 25 rows'' = ''SELECT * FROM user_data LIMIT 25''"
proof -
  have "generateSQLWithPatterns decimal [] ''show top 25 rows'' = ''SELECT * FROM user_data LIMIT 25''"
    by (simp add: pattern_eval resolver_eval extract_eval template_eval str_eval)
  with generateSQLWithPatterns_empty_schema [of "''show top 25 rows''" decimal]
  show ?thesis by simp
qed

end
